theory Spec2Isabelle
  imports Complex_Main "HOL-Library.Multiset"
begin

section \<open>Values exchanged with the platform\<close>

text \<open>
  The loader worker reads newline-delimited JSON records, builds one \<open>PromptPoint\<close> per
  record and posts the points to the UI thread in batches.  Numbers are IEEE doubles in the
  program; every function below that only moves numbers around is polymorphic in the number
  type \<open>'n\<close>, so that equality of two numbers means that they are the same value.

  \<open>json\<close> is the shape of a value returned by \<open>JSON.parse\<close>.
\<close>

datatype 'n json =
    JNull
  | JBool bool
  | JNum 'n
  | JStr string
  | JArr "'n json list"
  | JObj "(string \<times> 'n json) list"

text \<open>
  Functions of the platform and of third-party libraries that the worker calls:
  \<open>JSON.parse\<close> (\<open>None\<close> when it throws a SyntaxError), the \<open>Number\<close> conversion of a
  numeric token, \<open>marked.parse\<close> and the build-time constant \<open>import.meta.env.BASE_URL\<close>.
\<close>

record 'n platform =
  JSON_parse :: "string \<Rightarrow> 'n json option"
  Number :: "string \<Rightarrow> 'n"
  marked_parse :: "string \<Rightarrow> string"
  BASE_URL :: string

definition dquote :: char where
  "dquote = CHR 0x22"

definition squote :: char where
  "squote = CHR 0x27"

definition backslash :: char where
  "backslash = CHR 0x5C"

definition startsWith :: "string \<Rightarrow> string \<Rightarrow> bool" where
  "startsWith s p = (take (length p) s = p)"

definition endsWith :: "string \<Rightarrow> string \<Rightarrow> bool" where
  "endsWith s p = (length p \<le> length s \<and> drop (length s - length p) s = p)"

section \<open>The loader worker\<close>

subsection \<open>Profile picture path\<close>

text \<open>
  \<open>googleScholarURL.match(/[?&]user=([^&]+)/)\<close>: the leftmost position holding \<open>?\<close> or
  \<open>&\<close>, then \<open>user=\<close>, then at least one character other than \<open>&\<close>; the group is the
  longest run of such characters.
\<close>

fun userMatch :: "string \<Rightarrow> string option" where
  "userMatch [] = None"
| "userMatch (c # r) =
     (if (c = CHR ''?'' \<or> c = CHR ''&'') \<and> take 5 r = ''user=''
         \<and> takeWhile (\<lambda>d. d \<noteq> CHR ''&'') (drop 5 r) \<noteq> []
      then Some (takeWhile (\<lambda>d. d \<noteq> CHR ''&'') (drop 5 r))
      else userMatch r)"

text \<open>
  The argument is \<open>None\<close> when the caller passes \<open>undefined\<close> (the first element of an empty
  array): \<open>.match\<close> then throws inside the \<open>try\<close>, and the \<open>catch\<close> returns the argument.
\<close>

definition getResearcherProfilePicPath :: "'n platform \<Rightarrow> string option \<Rightarrow> string option" where
  "getResearcherProfilePicPath pf googleScholarURL =
     (case googleScholarURL of
        None \<Rightarrow> None
      | Some u \<Rightarrow>
          (case userMatch u of
             Some googleScholarId \<Rightarrow>
               Some (BASE_URL pf @ ''images/researchers/'' @ googleScholarId @ ''.jpg'')
           | None \<Rightarrow> Some u))"

subsection \<open>Parsing the embedding vector\<close>

text \<open>
  \<open>embeddingStr.replace(/^\\"|"\\$|^"|"$/g, '')\<close>.  The anchored alternatives can match at
  index 0 only; after that the scan can only remove a quote, or a quote and a backslash,
  that end the string.
\<close>

definition stripQuoteSuffix :: "string \<Rightarrow> string" where
  "stripQuoteSuffix r =
     (if endsWith r [dquote, backslash] then take (length r - 2) r
      else if endsWith r [dquote] then take (length r - 1) r
      else r)"

definition cleanQuotes :: "string \<Rightarrow> string" where
  "cleanQuotes s =
     (if startsWith s [backslash, dquote] then stripQuoteSuffix (drop 2 s)
      else if s = [dquote, backslash] then []
      else if startsWith s [dquote] then stripQuoteSuffix (drop 1 s)
      else stripQuoteSuffix s)"

definition ensureBrackets :: "string \<Rightarrow> string" where
  "ensureBrackets cleanStr =
     (if \<not> startsWith cleanStr ''['' \<or> \<not> endsWith cleanStr '']''
      then ''['' @ cleanStr @ '']''
      else cleanStr)"

definition isDigit :: "char \<Rightarrow> bool" where
  "isDigit c = (c \<in> set ''0123456789'')"

text \<open>
  One match of \<open>/-?\d+\.\d+|-?\d+/\<close> anchored at the head of the string: the token and the
  rest of the string after it.
\<close>

definition matchNumberAt :: "string \<Rightarrow> (string \<times> string) option" where
  "matchNumberAt s =
     (let sign = (if startsWith s ''-'' then ''-'' else []);
          r = drop (length sign) s;
          ds = takeWhile isDigit r;
          r1 = dropWhile isDigit r
      in if ds = [] then None
         else if startsWith r1 ''.'' \<and> takeWhile isDigit (drop 1 r1) \<noteq> []
              then Some (sign @ ds @ ''.'' @ takeWhile isDigit (drop 1 r1),
                         dropWhile isDigit (drop 1 r1))
              else Some (sign @ ds, r1))"

text \<open>\<open>cleanStr.match(numberRegex)\<close> with the global flag: all matches, left to right.\<close>

function numberMatches :: "string \<Rightarrow> string list" where
  "numberMatches [] = []"
| "numberMatches (c # r) =
     (case matchNumberAt (c # r) of
        Some (tok, rest) \<Rightarrow> tok # numberMatches rest
      | None \<Rightarrow> numberMatches r)"
  by pat_completeness auto
termination
proof (relation "measure length")
  show "wf (measure length)"
    by simp
next
  fix c r x2 tok rest
  assume "matchNumberAt (c # r) = Some x2" and "(tok, rest) = x2"
  then have m: "matchNumberAt (c # r) = Some (tok, rest)"
    by simp
  define sign where "sign = (if startsWith (c # r) ''-'' then ''-'' else [])"
  define r0 where "r0 = drop (length sign) (c # r)"
  have r_le: "length r0 \<le> length (c # r)"
    by (simp add: r0_def)
  have ds: "takeWhile isDigit r0 \<noteq> []"
    using m by (auto simp: matchNumberAt_def Let_def sign_def r0_def split: if_splits)
  have "length (takeWhile isDigit r0) + length (dropWhile isDigit r0) = length r0"
    by (metis length_append takeWhile_dropWhile_id)
  with ds have r1: "length (dropWhile isDigit r0) < length r0"
    by (cases "takeWhile isDigit r0") auto
  have r2: "length (dropWhile isDigit (drop 1 (dropWhile isDigit r0)))
              \<le> length (dropWhile isDigit r0)"
    by (metis diff_le_self le_trans length_drop length_dropWhile_le)
  have "rest = dropWhile isDigit r0 \<or> rest = dropWhile isDigit (drop 1 (dropWhile isDigit r0))"
    using m by (auto simp: matchNumberAt_def Let_def sign_def r0_def split: if_splits)
  with r1 r2 r_le have "length rest < length (c # r)"
    by auto
  then show "(rest, c # r) \<in> measure length"
    by simp
next
  fix c :: char and r :: string
  show "(r, c # r) \<in> measure length"
    by simp
qed

text \<open>The argument type \<open>string | number | number[]\<close> of \<open>parseEmbeddingString\<close>.\<close>

datatype 'n embedding_field =
    EmbString string
  | EmbNumber 'n
  | EmbArray "'n list"

text \<open>
  The result is the JavaScript value that the function returns.  An empty array fails the
  test \<open>typeof embeddingStr[0] === 'number'\<close> and reaches the final \<open>return []\<close>.  For a
  string, whatever \<open>JSON.parse\<close> returns is returned as it is; when it throws, the numeric
  tokens are converted, and \<open>match\<close> returning \<open>null\<close> (no token) reaches \<open>return []\<close>.
\<close>

definition parseEmbeddingString :: "'n platform \<Rightarrow> 'n embedding_field \<Rightarrow> 'n json" where
  "parseEmbeddingString pf embeddingStr =
     (case embeddingStr of
        EmbArray (v # vs) \<Rightarrow> JArr (map JNum (v # vs))
      | EmbArray [] \<Rightarrow> JArr []
      | EmbNumber v \<Rightarrow> JArr []
      | EmbString str \<Rightarrow>
          (let cleanStr = ensureBrackets (cleanQuotes str)
           in case JSON_parse pf cleanStr of
                Some parsed \<Rightarrow> parsed
              | None \<Rightarrow>
                  (case numberMatches cleanStr of
                     [] \<Rightarrow> JArr []
                   | m # ms \<Rightarrow> JArr (map (\<lambda>tok. JNum (Number pf tok)) (m # ms)))))"

subsection \<open>Records and points\<close>

text \<open>
  \<open>point[6]\<close>, the raw image URLs: an array of strings or one string.
\<close>

datatype image_urls =
    ImageURLArray "string list"
  | ImageURLString string

text \<open>
  One parsed line, the tuple \<open>UMAPPointStreamData\<close>: the fields are the positions that
  \<open>processPointStream\<close> reads (\<open>point[0]\<close>, \<open>point[1]\<close>, \<open>point[2]\<close>, \<open>point[4]\<close> to
  \<open>point[11]\<close>) and the last element, the embedding vector.
\<close>

record 'n UMAPPointStreamData =
  rec_x :: 'n
  rec_y :: 'n
  rec_interests :: string
  rec_name :: string
  rec_citationCount :: 'n
  rec_imageURLs :: image_urls
  rec_summary :: string
  rec_scholarURLs :: "'n json"
  rec_scholarKeywords :: "'n json"
  rec_affiliations :: "'n json"
  rec_homePageURL :: "'n json"
  rec_embedding :: "'n embedding_field"

record 'n PromptPoint =
  pt_x :: 'n
  pt_y :: 'n
  prompt :: string
  pt_id :: nat
  tooltipInfo :: string
  currEmbedding :: "'n json"
  pt_name :: string
  currURL :: "string option"
  currCitationCount :: 'n
  currSummary :: string
  currKeywords :: string
  googleScholarURLs :: "'n json"
  googleScholarKeywords :: "'n json"
  currAffiliations :: "'n json"
  homePageURL :: "'n json"

text \<open>
  \<open>originalURL.replace(/^\[["']?/, '').replace(/["']?\]$/, '')\<close>.
\<close>

definition isQuote :: "char \<Rightarrow> bool" where
  "isQuote c = (c = dquote \<or> c = squote)"

definition stripOpenBracket :: "string \<Rightarrow> string" where
  "stripOpenBracket s =
     (case s of
        [] \<Rightarrow> []
      | c # r \<Rightarrow>
          (if c = CHR ''['' then (case r of [] \<Rightarrow> [] | q # r' \<Rightarrow> if isQuote q then r' else r)
           else s))"

definition stripCloseBracket :: "string \<Rightarrow> string" where
  "stripCloseBracket s =
     (if endsWith s '']''
      then (if 2 \<le> length s \<and> isQuote (s ! (length s - 2))
            then take (length s - 2) s
            else take (length s - 1) s)
      else s)"

definition originalURL :: "image_urls \<Rightarrow> string option" where
  "originalURL raw =
     (case raw of
        ImageURLArray [] \<Rightarrow> None
      | ImageURLArray (u # us) \<Rightarrow> Some u
      | ImageURLString u \<Rightarrow> Some (stripCloseBracket (stripOpenBracket u)))"

text \<open>
  The object that \<open>processPointStream\<close> builds from a record; its \<open>id\<close> is the value of
  \<open>loadedPointCount\<close> when the record arrives.
\<close>

definition makePromptPoint :: "'n platform \<Rightarrow> nat \<Rightarrow> 'n UMAPPointStreamData \<Rightarrow> 'n PromptPoint" where
  "makePromptPoint pf loaded point =
     (let researcherName = rec_name point;
          resInterests = (if length (rec_interests point) > 0 then rec_interests point
                          else ''No defined research interests'');
          resFullInfo = researcherName @ '': '' @ resInterests
      in \<lparr> pt_x = rec_x point,
           pt_y = rec_y point,
           prompt = resFullInfo,
           pt_id = loaded,
           tooltipInfo = resFullInfo,
           currEmbedding = parseEmbeddingString pf (rec_embedding point),
           pt_name = researcherName,
           currURL = getResearcherProfilePicPath pf (originalURL (rec_imageURLs point)),
           currCitationCount = rec_citationCount point,
           currSummary = marked_parse pf (rec_summary point),
           currKeywords = rec_interests point,
           googleScholarURLs = rec_scholarURLs point,
           googleScholarKeywords = rec_scholarKeywords point,
           currAffiliations = rec_affiliations point,
           homePageURL = rec_homePageURL point \<rparr>)"

subsection \<open>Batching\<close>

record 'n transfer_payload =
  isFirstBatch :: bool
  isLastBatch :: bool
  points :: "'n PromptPoint list"
  payload_loadedPointCount :: nat

datatype 'n LoaderWorkerMessage =
    StartLoadData string
  | TransferLoadData "'n transfer_payload"
  | LoaderOther string

text \<open>
  The module-level variables of the worker, with the messages it has posted to the main
  thread (oldest first) and the lines it has written with \<open>console.error\<close>.
\<close>

record 'n loader_state =
  pendingDataPoints :: "'n PromptPoint list"
  loadedPointCount :: nat
  sentPointCount :: nat
  lastDrawnPoints :: "'n PromptPoint list option"
  posted :: "'n LoaderWorkerMessage list"
  console :: "string list"

definition POINT_THRESHOLD :: nat where
  "POINT_THRESHOLD = 5000"

definition loader_init :: "'n loader_state" where
  "loader_init =
     \<lparr> pendingDataPoints = [], loadedPointCount = 0, sentPointCount = 0,
       lastDrawnPoints = None, posted = [], console = [] \<rparr>"

definition processPointStream ::
  "'n platform \<Rightarrow> 'n UMAPPointStreamData \<Rightarrow> 'n loader_state \<Rightarrow> 'n loader_state" where
  "processPointStream pf point s =
     (let promptPoint = makePromptPoint pf (loadedPointCount s) point;
          pending = pendingDataPoints s @ [promptPoint];
          loaded = loadedPointCount s + 1
      in if length pending \<ge> POINT_THRESHOLD
         then s\<lparr> pendingDataPoints := [],
                 loadedPointCount := loaded,
                 sentPointCount := sentPointCount s + length pending,
                 lastDrawnPoints := Some pending,
                 posted := posted s @
                   [TransferLoadData
                      \<lparr> isFirstBatch = (lastDrawnPoints s = None),
                        isLastBatch = False,
                        points = pending,
                        payload_loadedPointCount = loaded \<rparr>] \<rparr>
         else s\<lparr> pendingDataPoints := pending, loadedPointCount := loaded \<rparr>)"

definition pointStreamFinished :: "'n loader_state \<Rightarrow> 'n loader_state" where
  "pointStreamFinished s =
     s\<lparr> pendingDataPoints := [],
        sentPointCount := sentPointCount s + length (pendingDataPoints s),
        lastDrawnPoints := Some (pendingDataPoints s),
        posted := posted s @
          [TransferLoadData
             \<lparr> isFirstBatch = (lastDrawnPoints s = None),
               isLastBatch = True,
               points = pendingDataPoints s,
               payload_loadedPointCount = loadedPointCount s \<rparr>] \<rparr>"

subsection \<open>Reading the stream\<close>

text \<open>
  What \<open>fetch(url)\<close> and the reader give: the promise is rejected, the response is not
  \<open>ok\<close>, the response has no body (the reader is \<open>undefined\<close>), or the reader yields the
  listed results and then \<open>done\<close>.  A result is a parsed record, or a rejected \<open>read()\<close>
  (the stream or a line of it could not be decoded).
\<close>

datatype 'n read_result =
    ReadValue "'n UMAPPointStreamData"
  | ReadRejected

datatype 'n fetch_result =
    FetchRejected
  | ResponseNotOk
  | ResponseNoBody
  | ResponseBody "'n read_result list"

text \<open>
  The \<open>while (true && reader !== undefined)\<close> loop.  \<open>done\<close> ends it through
  \<open>pointStreamFinished\<close>; a rejected read leaves it through the \<open>catch\<close> of the promise.
\<close>

fun readLoop :: "'n platform \<Rightarrow> 'n read_result list \<Rightarrow> 'n loader_state \<Rightarrow> 'n loader_state" where
  "readLoop pf [] s = pointStreamFinished s"
| "readLoop pf (ReadValue point # rs) s = readLoop pf rs (processPointStream pf point s)"
| "readLoop pf (ReadRejected # rs) s = s\<lparr> console := console s @ [''Error loading data:''] \<rparr>"

definition startLoadData ::
  "'n platform \<Rightarrow> (string \<Rightarrow> 'n fetch_result) \<Rightarrow> string \<Rightarrow> 'n loader_state \<Rightarrow> 'n loader_state" where
  "startLoadData pf fetch url s =
     (case fetch url of
        FetchRejected \<Rightarrow> s\<lparr> console := console s @ [''Error loading data:''] \<rparr>
      | ResponseNotOk \<Rightarrow> s\<lparr> console := console s @ [''Failed to load data''] \<rparr>
      | ResponseNoBody \<Rightarrow> s
      | ResponseBody rs \<Rightarrow> readLoop pf rs s)"

fun loader_command :: "'n LoaderWorkerMessage \<Rightarrow> string" where
  "loader_command (StartLoadData url) = ''startLoadData''"
| "loader_command (TransferLoadData payload) = ''transferLoadData''"
| "loader_command (LoaderOther c) = c"

text \<open>\<open>self.onmessage\<close> of the loader worker: \<open>startLoadData\<close> is its only case.\<close>

definition loader_onmessage ::
  "'n platform \<Rightarrow> (string \<Rightarrow> 'n fetch_result) \<Rightarrow> 'n LoaderWorkerMessage \<Rightarrow> 'n loader_state
     \<Rightarrow> 'n loader_state" where
  "loader_onmessage pf fetch msg s =
     (case msg of
        StartLoadData url \<Rightarrow> startLoadData pf fetch url s
      | _ \<Rightarrow> s\<lparr> console := console s @ [''Worker: unknown message '' @ loader_command msg] \<rparr>)"

text \<open>The points carried by a posted message, and a whole stream of valid records.\<close>

fun batch_points :: "'n LoaderWorkerMessage \<Rightarrow> 'n PromptPoint list" where
  "batch_points (TransferLoadData payload) = points payload"
| "batch_points _ = []"

fun batch_isFirst :: "'n LoaderWorkerMessage \<Rightarrow> bool" where
  "batch_isFirst (TransferLoadData payload) = isFirstBatch payload"
| "batch_isFirst _ = False"

fun batch_isLast :: "'n LoaderWorkerMessage \<Rightarrow> bool" where
  "batch_isLast (TransferLoadData payload) = isLastBatch payload"
| "batch_isLast _ = False"

fun is_transfer :: "'n LoaderWorkerMessage \<Rightarrow> bool" where
  "is_transfer (TransferLoadData payload) = True"
| "is_transfer _ = False"

definition points_from :: "'n platform \<Rightarrow> nat \<Rightarrow> 'n UMAPPointStreamData list \<Rightarrow> 'n PromptPoint list" where
  "points_from pf k recs = map (\<lambda>(i, r). makePromptPoint pf i r) (zip [k ..< k + length recs] recs)"

definition load_records ::
  "'n platform \<Rightarrow> 'n UMAPPointStreamData list \<Rightarrow> 'n loader_state" where
  "load_records pf recs =
     loader_onmessage pf (\<lambda>url. ResponseBody (map ReadValue recs)) (StartLoadData ''data.ndjson'')
       loader_init"

text \<open>The messages posted by the worker for a whole stream of valid records.\<close>

definition emitted :: "'n platform \<Rightarrow> 'n UMAPPointStreamData list \<Rightarrow> 'n LoaderWorkerMessage list" where
  "emitted pf recs = posted (load_records pf recs)"

text \<open>The state of the worker after the records read so far, before the stream ends.\<close>

definition streamed :: "'n platform \<Rightarrow> 'n UMAPPointStreamData list \<Rightarrow> 'n loader_state" where
  "streamed pf recs = foldl (\<lambda>s r. processPointStream pf r s) loader_init recs"

text \<open>
  What holds of the worker's variables between two reads, when \<open>recs\<close> are the records
  read so far.
\<close>

definition loader_inv :: "'n platform \<Rightarrow> 'n UMAPPointStreamData list \<Rightarrow> 'n loader_state \<Rightarrow> bool" where
  "loader_inv pf recs s \<longleftrightarrow>
     concat (map batch_points (posted s)) @ pendingDataPoints s = points_from pf 0 recs
   \<and> loadedPointCount s = length recs
   \<and> length (pendingDataPoints s) < POINT_THRESHOLD
   \<and> (\<forall>m \<in> set (posted s).
          is_transfer m \<and> length (batch_points m) = POINT_THRESHOLD \<and> \<not> batch_isLast m)
   \<and> sentPointCount s = length (concat (map batch_points (posted s)))
   \<and> (posted s = [] \<longleftrightarrow> lastDrawnPoints s = None)
   \<and> map batch_isFirst (posted s) = map (\<lambda>i. i = 0) [0 ..< length (posted s)]
   \<and> console s = []"

subsection \<open>Sample inputs\<close>

text \<open>
  A platform whose \<open>JSON.parse\<close> accepts the two texts below, as the real one does, and
  rejects every other text; it is used on these texts and on texts that are not JSON.
\<close>

definition sample_platform :: "rat platform" where
  "sample_platform =
     \<lparr> JSON_parse = (\<lambda>s. if s = ''[1, 2]'' then Some (JArr [JNum 1, JNum 2])
                         else if s = ''[ [1, 2]]'' then Some (JArr [JArr [JNum 1, JNum 2]])
                         else None),
       Number = (\<lambda>tok. if tok = ''3'' then 3 else if tok = ''-4.5'' then - 9 / 2 else 0),
       marked_parse = (\<lambda>md. ''<p>'' @ md @ ''</p>''),
       BASE_URL = ''/'' \<rparr>"

definition sample_record :: "string \<Rightarrow> rat embedding_field \<Rightarrow> rat UMAPPointStreamData" where
  "sample_record nm emb =
     \<lparr> rec_x = 1 / 2, rec_y = - 3, rec_interests = ''nlp'', rec_name = nm,
       rec_citationCount = 12,
       rec_imageURLs =
         ImageURLString (''['' @ [dquote] @ ''https://scholar.example/citations?user=abc&hl=en''
                         @ [dquote] @ '']''),
       rec_summary = ''text'', rec_scholarURLs = JNull, rec_scholarKeywords = JNull,
       rec_affiliations = JStr ''GT'', rec_homePageURL = JNull,
       rec_embedding = emb \<rparr>"

definition sample_stream :: "nat \<Rightarrow> rat UMAPPointStreamData list" where
  "sample_stream n = replicate n (sample_record ''Ada'' (EmbArray [1, 2]))"

section \<open>The UI thread\<close>

subsection \<open>Messages, effects and state\<close>

datatype 'n TreeWorkerMessage =
    UpdateQuadtree "'n PromptPoint list"
  | StartQuadtreeSearch 'n 'n string int
  | FinishInitQuadtree
  | FinishQuadtreeSearch "'n PromptPoint"
  | TreeOther string

datatype 'n SearchWorkerMessage =
    CheckModelStatus bool
  | AddPoints "'n PromptPoint list"
  | StartQuery string nat
  | FinishQuery "nat list"
  | SearchOther string

text \<open>An entry \<open>{x, y}\<close> of a position snapshot.\<close>

record 'n position =
  pos_x :: 'n
  pos_y :: 'n

text \<open>
  The point that \<open>highlightPoint\<close> receives is an object.  It is either an element of
  \<open>promptPoints\<close>, named by its index, or a fresh \<open>structuredClone\<close>, which is identical
  (\<open>===\<close>) to no other object.
\<close>

datatype 'n point_ref =
    Live nat
  | Clone "'n PromptPoint"

text \<open>
  What the UI thread does to its collaborators, in order: messages to the workers, writes
  to the WebGL buffers, calls of the force simulation, animation frames, image decodes
  (\<open>new Image()\<close> with its \<open>src\<close>), and changes of the SVG overlay.
\<close>

datatype 'n ui_effect =
    TreeWorkerPost "'n TreeWorkerMessage"
  | SearchWorkerPost "'n SearchWorkerMessage"
  | LoaderWorkerPost "'n LoaderWorkerMessage"
  | CreateBuffers "'n position list"
  | AppendToBuffers "'n position list"
  | WritePositions "'n position list"
  | UpdateSimulation "'n PromptPoint list"
  | RequestAnimationFrame nat
  | CancelAnimationFrame nat
  | ReglClear
  | NewImage string
  | ApplyAspectRatio nat real real
  | SetPointTransforms "(nat \<times> real \<times> real) list"
  | FadeInPoints
  | LayoutTopicLabels
  | FooterStoreSet nat
  | HighlightElement nat bool
  | ScheduleHoverClear
  | StartPlaceholderRotation
  | ShowSearchResults "nat list"

text \<open>A \<open>g.point\<close> node of the overlay: its node number, the id of its datum, its image URL.\<close>

record point_element =
  el_node :: nat
  el_id :: nat
  el_href :: string

text \<open>
  An \<open>Image\<close> object whose load is pending: its \<open>src\<close>, the node it was created for, the
  size captured by its \<open>onload\<close> closure, and whether that closure stores the ratio in the
  cache (the closure of the update path does, the closure of the enter path does not).
\<close>

record image_request =
  img_src :: string
  img_node :: nat
  img_size :: real
  img_caches :: bool

record 'n ui_state =
  promptPoints :: "'n PromptPoint list"
  ui_loadedPointCount :: nat
  preSimPositions :: "(nat \<Rightarrow> 'n position option) option"
  postSimPositions :: "(nat \<Rightarrow> 'n position option) option"
  isAnimatingDispersal :: bool
  animationFrameId :: "nat option"
  animationStartTime :: real
  nextFrameId :: nat
  forceSimulation :: bool
  pointQuadtree :: "'n position list option"
  gridData :: bool
  webGLMatrices :: bool
  frontPositionBuffer :: bool
  frontTextureCoordinateBuffer :: bool
  frontBufferPointSize :: nat
  showPoints :: "bool list"
  showLabel :: bool
  hideHighlights :: bool
  groupNames :: bool
  curPointWidth :: real
  svgHeight :: real
  timeInspectMode :: bool
  timeCountMap :: "(string \<Rightarrow> nat option) option"
  curTime :: "string option"
  zoom_k :: real
  zoom_x :: real
  zoom_y :: real
  hoverPoint :: "'n point_ref option"
  lastMouseClientPosition :: "(real \<times> real) option"
  pointMouseenterTimer :: bool
  pointMouseleaveTimer :: bool
  lastDrawTime :: real
  pointsGroup :: bool
  elements :: "point_element list"
  nextNode :: nat
  imageAspectRatioCache :: "string \<Rightarrow> real option"
  images :: "image_request list"
  trace :: "'n ui_effect list"
  ui_console :: "string list"

text \<open>
  The parts of the page that the class takes from libraries, from the configuration and
  from modules outside this development: the two linear scales of d3 with their inverses,
  \<open>find\<close> of the d3 quadtree (it gets the positions that the tree was built from and the
  live points, and answers with the index of a point), \<open>anyTrue\<close> and \<open>allTrue\<close>,
  \<open>config.layout.scatterDotRadius\<close>, the base URL and the URL of the point data.
\<close>

record 'n ui_env =
  xScale :: "'n \<Rightarrow> real"
  yScale :: "'n \<Rightarrow> real"
  xScale_invert :: "real \<Rightarrow> 'n"
  yScale_invert :: "real \<Rightarrow> 'n"
  quadtree_find :: "'n position list \<Rightarrow> 'n PromptPoint list \<Rightarrow> 'n \<Rightarrow> 'n \<Rightarrow> nat option"
  anyTrue :: "bool list \<Rightarrow> bool"
  allTrue :: "bool list \<Rightarrow> bool"
  scatterDotRadius :: real
  ui_BASE_URL :: string
  dataURL_point :: string

text \<open>
  A handler either returns, or an exception leaves it; the state is the one reached at
  that moment.
\<close>

datatype 'a outcome =
    Returned 'a
  | Threw 'a

definition emit :: "'n ui_effect list \<Rightarrow> 'n ui_state \<Rightarrow> 'n ui_state" where
  "emit es s = s\<lparr> trace := trace s @ es \<rparr>"

definition position_of :: "'n PromptPoint \<Rightarrow> 'n position" where
  "position_of p = \<lparr> pos_x = pt_x p, pos_y = pt_y p \<rparr>"

definition moveTo :: "'n position \<Rightarrow> 'n PromptPoint \<Rightarrow> 'n PromptPoint" where
  "moveTo q p = p\<lparr> pt_x := pos_x q, pt_y := pos_y q \<rparr>"

text \<open>
  \<open>new Map()\<close> filled by \<open>set(point.id, {x: point.x, y: point.y})\<close> for the points in
  order: a later point with the same id replaces the entry.
\<close>

definition capturePositions :: "'n PromptPoint list \<Rightarrow> (nat \<Rightarrow> 'n position option)" where
  "capturePositions ps = foldl (\<lambda>m p. m(pt_id p \<mapsto> position_of p)) Map.empty ps"

text \<open>The methods of a d3 zoom transform \<open>{k, x, y}\<close>.\<close>

definition applyX :: "'n ui_state \<Rightarrow> real \<Rightarrow> real" where
  "applyX s v = v * zoom_k s + zoom_x s"

definition applyY :: "'n ui_state \<Rightarrow> real \<Rightarrow> real" where
  "applyY s v = v * zoom_k s + zoom_y s"

definition invertX :: "'n ui_state \<Rightarrow> real \<Rightarrow> real" where
  "invertX s v = (v - zoom_x s) / zoom_k s"

definition invertY :: "'n ui_state \<Rightarrow> real \<Rightarrow> real" where
  "invertY s v = (v - zoom_y s) / zoom_k s"

definition rebuildPointQuadtree :: "'n ui_state \<Rightarrow> 'n ui_state" where
  "rebuildPointQuadtree s = s\<lparr> pointQuadtree := Some (map position_of (promptPoints s)) \<rparr>"

subsection \<open>The WebGL buffers\<close>

text \<open>
  \<open>initWebGLBuffers\<close> and \<open>updateWebGLBuffers\<close>.  The texture coordinates written with the
  positions are not part of the effect.  \<open>updateWebGLBuffers\<close> dereferences both buffers
  (\<open>this.frontPositionBuffer!\<close>), which throws a TypeError when the buffer is \<open>null\<close>.
\<close>

definition initWebGLBuffers :: "'n ui_state \<Rightarrow> 'n ui_state" where
  "initWebGLBuffers s =
     (if \<not> gridData s
      then s\<lparr> ui_console := ui_console s @ [''initWebGLBuffers: GridData is null.''] \<rparr>
      else emit [CreateBuffers (map position_of (promptPoints s))]
             (s\<lparr> frontPositionBuffer := True,
                  frontTextureCoordinateBuffer := True,
                  frontBufferPointSize := length (promptPoints s) \<rparr>))"

definition updateWebGLBuffers :: "'n PromptPoint list \<Rightarrow> 'n ui_state \<Rightarrow> 'n ui_state outcome" where
  "updateWebGLBuffers newPoints s =
     (if \<not> frontPositionBuffer s then Threw s
      else if \<not> frontTextureCoordinateBuffer s
           then Threw (emit [AppendToBuffers (map position_of newPoints)] s)
           else Returned
                  (emit [AppendToBuffers (map position_of newPoints)]
                     (s\<lparr> frontBufferPointSize := frontBufferPointSize s + length newPoints \<rparr>)))"

subsection \<open>Drawing the scatter plot\<close>

definition DRAW_THROTTLE :: real where
  "DRAW_THROTTLE = 16"

text \<open>
  The point width of \<open>drawScatterPlot\<close>: \<open>a + b * Math.log(\<dots>)\<close>, then
  \<open>Math.min(5, \<dots>)\<close>, then \<open>Math.max(0.4, \<dots>)\<close>.  \<open>Math.log(0)\<close> is \<open>-Infinity\<close>,
  and \<open>b\<close> is negative, so that the sum is \<open>Infinity\<close> and the minimum is 5 when the
  product is 0 (no point, or no height).  For a negative product \<open>Math.log\<close> is \<open>NaN\<close>;
  the theorems below are about products that are not negative.
\<close>

definition basePointWidth :: "real \<Rightarrow> real \<Rightarrow> nat \<Rightarrow> real" where
  "basePointWidth dotRadius height pointCount =
     (let product = dotRadius * (height / 760) * real pointCount
      in if product = 0 then 5
         else max 0.4 (min 5 (8.71682071 + (- 0.337974871) * ln product)))"

text \<open>
  The radius of the drawn marks, interpolated from the zoom scale \<open>k\<close>.  d3 keeps the
  zoom scale positive, so that the arguments of \<open>Math.log2\<close> are positive.
\<close>

definition cappedPointWidth :: "real \<Rightarrow> real" where
  "cappedPointWidth currentK =
     (let kMin = 0.5; kMax = 40; minPointSize = 3; maxPointSize = 11;
          epsilon = 1 / 10 ^ 9;
          zoomScaleFactorMin = log 2 (kMin + 1 + epsilon);
          zoomScaleFactorMax = log 2 (kMax + 1 + epsilon);
          zoomScaleRange = zoomScaleFactorMax - zoomScaleFactorMin;
          currentZoomScaleFactor = log 2 (currentK + 1 + epsilon);
          normalizedZoom =
            (if zoomScaleRange > epsilon
             then (currentZoomScaleFactor - zoomScaleFactorMin) / zoomScaleRange
             else if currentZoomScaleFactor \<ge> zoomScaleFactorMax then 1 else 0);
          clamped = max 0 (min 1 normalizedZoom);
          zoomedPointWidth = maxPointSize - (maxPointSize - minPointSize) * clamped
      in min zoomedPointWidth maxPointSize)"

definition drawnPointCount :: "'n ui_state \<Rightarrow> nat" where
  "drawnPointCount s =
     (case (timeInspectMode s, timeCountMap s, curTime s) of
        (True, Some m, Some t) \<Rightarrow>
          (if t \<noteq> [] then (case m t of Some c \<Rightarrow> c | None \<Rightarrow> ui_loadedPointCount s)
           else ui_loadedPointCount s)
      | _ \<Rightarrow> ui_loadedPointCount s)"

definition defaultPicture :: "'n ui_env \<Rightarrow> string" where
  "defaultPicture env = ui_BASE_URL env @ ''default-scholar-profile-picture.png''"

text \<open>\<open>d.currURL || `${BASE_URL}default-scholar-profile-picture.png`\<close>.\<close>

definition hrefOf :: "'n ui_env \<Rightarrow> 'n PromptPoint \<Rightarrow> string" where
  "hrefOf env d =
     (case currURL d of
        Some u \<Rightarrow> if u = [] then defaultPicture env else u
      | None \<Rightarrow> defaultPicture env)"

text \<open>
  The keyed data join of d3, \<open>selectAll('g.point').data(promptPoints, d => d.id)\<close>: of
  several nodes with one key the first is kept; each datum takes the node with its key
  when one is left, and enters otherwise.
\<close>

fun firstPerKey :: "point_element list \<Rightarrow> point_element list" where
  "firstPerKey [] = []"
| "firstPerKey (e # es) = e # firstPerKey (filter (\<lambda>e'. el_id e' \<noteq> el_id e) es)"

fun bindKey ::
  "point_element list \<Rightarrow> 'n PromptPoint list \<Rightarrow> (point_element option \<times> 'n PromptPoint) list" where
  "bindKey avail [] = []"
| "bindKey avail (d # ds) =
     (case find (\<lambda>e. el_id e = pt_id d) avail of
        Some e \<Rightarrow> (Some e, d) # bindKey (filter (\<lambda>e'. el_id e' \<noteq> pt_id d) avail) ds
      | None \<Rightarrow> (None, d) # bindKey avail ds)"

text \<open>
  The merged selection: the node of each datum, with a flag for the nodes appended by
  \<open>enter()\<close>; a new node gets the next node number and the URL of its datum.
\<close>

fun mergeNodes ::
  "'n ui_env \<Rightarrow> nat \<Rightarrow> (point_element option \<times> 'n PromptPoint) list
     \<Rightarrow> (point_element \<times> bool) list" where
  "mergeNodes env n [] = []"
| "mergeNodes env n ((Some e, d) # bs) = (e, False) # mergeNodes env n bs"
| "mergeNodes env n ((None, d) # bs) =
     (\<lparr> el_node = n, el_id = pt_id d, el_href = hrefOf env d \<rparr>, True)
       # mergeNodes env (Suc n) bs"

text \<open>
  The \<open>each\<close> of the entering images creates an \<open>Image\<close> for every new node; its \<open>onload\<close>
  sizes the image and does not touch the cache.
\<close>

definition enterImages :: "real \<Rightarrow> (point_element \<times> bool) list \<Rightarrow> image_request list" where
  "enterImages imageSize merged =
     map (\<lambda>(e, entered). \<lparr> img_src = el_href e, img_node = el_node e,
                             img_size = imageSize, img_caches = False \<rparr>)
       (filter snd merged)"

text \<open>
  The \<open>each\<close> of the merged images: a cached ratio is applied; otherwise an \<open>Image\<close> is
  created whose \<open>onload\<close> stores the ratio in the cache and applies it.
\<close>

definition updateImage ::
  "(string \<Rightarrow> real option) \<Rightarrow> real \<Rightarrow> point_element \<Rightarrow> 'n ui_effect \<times> image_request list" where
  "updateImage cache imageSize e =
     (case cache (el_href e) of
        Some cachedRatio \<Rightarrow> (ApplyAspectRatio (el_node e) cachedRatio imageSize, [])
      | None \<Rightarrow>
          (NewImage (el_href e),
           [\<lparr> img_src = el_href e, img_node = el_node e, img_size = imageSize, img_caches = True \<rparr>]))"

text \<open>
  The parts of a draw in state \<open>s\<close>: the merged selection, the size \<open>cappedPointWidth * 2\<close>
  of an image, the \<open>Image\<close> objects of the entering nodes, what the merged \<open>each\<close> does
  to every node, and the transforms set on the merged nodes.
\<close>

definition mergedNodes :: "'n ui_env \<Rightarrow> 'n ui_state \<Rightarrow> (point_element \<times> bool) list" where
  "mergedNodes env s =
     mergeNodes env (nextNode s) (bindKey (firstPerKey (elements s)) (promptPoints s))"

definition imageSize :: "'n ui_state \<Rightarrow> real" where
  "imageSize s = cappedPointWidth (zoom_k s) * 2"

definition enterRequests :: "'n ui_env \<Rightarrow> 'n ui_state \<Rightarrow> image_request list" where
  "enterRequests env s = enterImages (imageSize s) (mergedNodes env s)"

definition imageUpdates :: "'n ui_env \<Rightarrow> 'n ui_state \<Rightarrow> ('n ui_effect \<times> image_request list) list" where
  "imageUpdates env s =
     map (updateImage (imageAspectRatioCache s) (imageSize s)) (map fst (mergedNodes env s))"

definition mergedTransforms :: "'n ui_env \<Rightarrow> 'n ui_state \<Rightarrow> (nat \<times> real \<times> real) list" where
  "mergedTransforms env s =
     map (\<lambda>((e, entered), (b, d)). (el_node e, xScale env (pt_x d), yScale env (pt_y d)))
       (zip (mergedNodes env s) (bindKey (firstPerKey (elements s)) (promptPoints s)))"

text \<open>
  \<open>drawScatterPlot\<close>; \<open>now\<close> is its reading of \<open>performance.now()\<close>.  The nodes left
  without a datum are removed, so the overlay holds the merged nodes afterwards.
\<close>

definition drawScatterPlot :: "'n ui_env \<Rightarrow> real \<Rightarrow> bool \<Rightarrow> 'n ui_state \<Rightarrow> 'n ui_state" where
  "drawScatterPlot env now isPanningOnly s =
     (if now - lastDrawTime s < DRAW_THROTTLE \<and> \<not> isPanningOnly then s
      else if \<not> webGLMatrices s \<or> \<not> frontPositionBuffer s \<or> \<not> frontTextureCoordinateBuffer s
      then s\<lparr> lastDrawTime := now \<rparr>
      else s\<lparr> lastDrawTime := now,
              curPointWidth :=
                basePointWidth (scatterDotRadius env) (svgHeight s) (drawnPointCount s),
              pointsGroup := True,
              elements := map fst (mergedNodes env s),
              nextNode := nextNode s + length (enterRequests env s),
              images := images s @ enterRequests env s @ concat (map snd (imageUpdates env s)),
              trace := trace s
                @ (if isPanningOnly then [] else [ReglClear])
                @ map (\<lambda>r. NewImage (img_src r)) (enterRequests env s)
                @ [SetPointTransforms (mergedTransforms env s)]
                @ map fst (imageUpdates env s) \<rparr>)"

text \<open>
  A call of \<open>drawScatterPlot\<close> draws when it is not cut short by the throttle or by the
  test for the matrices and buffers.
\<close>

definition drawPasses :: "real \<Rightarrow> bool \<Rightarrow> 'n ui_state \<Rightarrow> bool" where
  "drawPasses now isPanningOnly s \<longleftrightarrow>
     \<not> (now - lastDrawTime s < DRAW_THROTTLE \<and> \<not> isPanningOnly)
     \<and> webGLMatrices s \<and> frontPositionBuffer s \<and> frontTextureCoordinateBuffer s"

text \<open>
  The load of the \<open>i\<close>-th pending image ends: \<open>onload\<close> with the measured ratio
  \<open>img.width / img.height\<close>, or \<open>onerror\<close>, which points the node to the default picture.
\<close>

definition imageLoaded :: "nat \<Rightarrow> real \<Rightarrow> 'n ui_state \<Rightarrow> 'n ui_state" where
  "imageLoaded i aspectRatio s =
     (if i < length (images s)
      then let r = images s ! i
           in s\<lparr> images := take i (images s) @ drop (Suc i) (images s),
                  imageAspectRatioCache :=
                    (if img_caches r then (imageAspectRatioCache s)(img_src r \<mapsto> aspectRatio)
                     else imageAspectRatioCache s),
                  trace := trace s @ [ApplyAspectRatio (img_node r) aspectRatio (img_size r)] \<rparr>
      else s)"

definition imageFailed :: "'n ui_env \<Rightarrow> nat \<Rightarrow> 'n ui_state \<Rightarrow> 'n ui_state" where
  "imageFailed env i s =
     (if i < length (images s)
      then let r = images s ! i
           in s\<lparr> images := take i (images s) @ drop (Suc i) (images s),
                  elements := map (\<lambda>e. if el_node e = img_node r
                                        then e\<lparr> el_href := defaultPicture env \<rparr> else e)
                                (elements s) \<rparr>
      else s)"

text \<open>The number of \<open>Image\<close> objects created for a URL, that is, of its decodes.\<close>

definition decodes :: "'n ui_effect list \<Rightarrow> string \<Rightarrow> nat" where
  "decodes tr url = length (filter (\<lambda>e. e = NewImage url) tr)"

subsection \<open>Hovering\<close>

definition HOVER_RADIUS :: real where
  "HOVER_RADIUS = 3"

definition tooltipHtml :: "string \<Rightarrow> string" where
  "tooltipHtml nm =
     [CHR 0x0A] @ ''<div style='' @ [dquote] @ ''color: black;'' @ [dquote] @ ''>'' @ nm @ ''</div>''"

text \<open>\<open>point === this.hoverPoint\<close>: the same element of \<open>promptPoints\<close>.\<close>

fun sameObject :: "'n point_ref option \<Rightarrow> 'n point_ref option \<Rightarrow> bool" where
  "sameObject (Some (Live i)) (Some (Live j)) = (i = j)"
| "sameObject _ _ = False"

fun deref :: "'n ui_state \<Rightarrow> 'n point_ref \<Rightarrow> 'n PromptPoint option" where
  "deref s (Live i) = (if i < length (promptPoints s) then Some (promptPoints s ! i) else None)"
| "deref s (Clone p) = Some p"

text \<open>
  \<open>highlightPoint\<close>.  Writing \<open>tooltipInfo\<close> through \<open>this.hoverPoint\<close> changes the point
  object itself: the element of \<open>promptPoints\<close>, or the clone.  The styling of the node
  and the tooltip are one effect; the timer started for \<open>undefined\<close> is another.
\<close>

definition highlightPoint ::
  "'n ui_env \<Rightarrow> 'n point_ref option \<Rightarrow> bool \<Rightarrow> 'n ui_state \<Rightarrow> 'n ui_state" where
  "highlightPoint env point animated s =
     (if \<not> anyTrue env (showPoints s) then s
      else if sameObject point (hoverPoint s) then s
      else if hideHighlights s then s
      else
        let s1 = s\<lparr> pointMouseenterTimer := False \<rparr>
        in case point of
             None \<Rightarrow> emit [ScheduleHoverClear] (s1\<lparr> pointMouseleaveTimer := True \<rparr>)
           | Some r \<Rightarrow>
               (case deref s1 r of
                  None \<Rightarrow> s1
                | Some p \<Rightarrow>
                    let s2 = (case r of
                                Live i \<Rightarrow>
                                  s1\<lparr> hoverPoint := Some (Live i),
                                      promptPoints := (promptPoints s1)
                                        [i := p\<lparr> tooltipInfo := tooltipHtml (pt_name p) \<rparr>] \<rparr>
                              | Clone c \<Rightarrow>
                                  s1\<lparr> hoverPoint :=
                                        Some (Clone (p\<lparr> tooltipInfo := tooltipHtml (pt_name p) \<rparr>)) \<rparr>)
                    in if list_ex (\<lambda>e. el_id e = pt_id p) (elements s2)
                       then emit [HighlightElement (pt_id p) animated] s2
                       else s2))"

definition screenDistance :: "real \<Rightarrow> real \<Rightarrow> real \<Rightarrow> real \<Rightarrow> real" where
  "screenDistance x y screenPointX screenPointY =
     sqrt ((x - screenPointX) ^ 2 + (y - screenPointY) ^ 2)"

definition hoverThreshold :: "'n ui_state \<Rightarrow> real" where
  "hoverThreshold s = max (7 / zoom_k s) (curPointWidth s * 2)"

definition searchGroupID :: "'n ui_env \<Rightarrow> 'n ui_state \<Rightarrow> int" where
  "searchGroupID env s =
     (if groupNames s
      then (if allTrue env (showPoints s) then - 1
            else (case find (\<lambda>i. showPoints s ! i) [0 ..< length (showPoints s)] of
                    Some i \<Rightarrow> int i
                  | None \<Rightarrow> - 1))
      else - 1)"

text \<open>
  What \<open>mouseoverPoint\<close> decides for a pointer position: to highlight the element of
  \<open>promptPoints\<close> with the given index, to do nothing, or to ask the tree worker.
\<close>

datatype hover_decision =
    Highlight nat
  | NoHighlight
  | AskTreeWorker

definition closestPoint :: "'n ui_env \<Rightarrow> real \<Rightarrow> real \<Rightarrow> 'n ui_state \<Rightarrow> nat option" where
  "closestPoint env x y s =
     (case pointQuadtree s of
        None \<Rightarrow> None
      | Some tree \<Rightarrow>
          (case quadtree_find env tree (promptPoints s)
                  (xScale_invert env (invertX s x)) (yScale_invert env (invertY s y)) of
             None \<Rightarrow> None
           | Some i \<Rightarrow> if i < length (promptPoints s) then Some i else None))"

definition mouseoverDecision :: "'n ui_env \<Rightarrow> real \<Rightarrow> real \<Rightarrow> 'n ui_state \<Rightarrow> hover_decision" where
  "mouseoverDecision env x y s =
     (if pointQuadtree s \<noteq> None \<and> length (promptPoints s) > 0
      then (case closestPoint env x y s of
              None \<Rightarrow> NoHighlight
            | Some i \<Rightarrow>
                let cp = promptPoints s ! i;
                    screenPointX = applyX s (xScale env (pt_x cp));
                    screenPointY = applyY s (yScale env (pt_y cp))
                in if screenDistance x y screenPointX screenPointY \<le> hoverThreshold s
                   then Highlight i else NoHighlight)
      else AskTreeWorker)"

definition mouseoverPoint :: "'n ui_env \<Rightarrow> real \<Rightarrow> real \<Rightarrow> 'n ui_state \<Rightarrow> 'n ui_state" where
  "mouseoverPoint env x y s =
     (case mouseoverDecision env x y s of
        Highlight i \<Rightarrow> highlightPoint env (Some (Live i)) False s
      | NoHighlight \<Rightarrow> s
      | AskTreeWorker \<Rightarrow>
          emit [TreeWorkerPost
                  (StartQuadtreeSearch
                     (xScale_invert env (invertX s x)) (yScale_invert env (invertY s y))
                     (case (timeInspectMode s, curTime s) of
                        (True, Some t) \<Rightarrow> t
                      | _ \<Rightarrow> [])
                     (searchGroupID env s))] s)"

text \<open>
  The reply of the tree worker is judged in \<open>treeWorkerMessageHandler\<close>, by the larger of
  the two coordinate differences and a radius of its own.
\<close>

definition workerDistance :: "real \<Rightarrow> real \<Rightarrow> real \<Rightarrow> real \<Rightarrow> real" where
  "workerDistance screenPointX screenPointY mouseX mouseY =
     max \<bar>screenPointX - mouseX\<bar> \<bar>screenPointY - mouseY\<bar>"

definition curHoverRadius :: "'n ui_env \<Rightarrow> 'n ui_state \<Rightarrow> real" where
  "curHoverRadius env s =
     (let highlightRadius =
            max (10 / zoom_k s)
                ((scatterDotRadius env * exp (ln (zoom_k s) * 0.55)) / zoom_k s)
      in max HOVER_RADIUS (highlightRadius * zoom_k s))"

fun tree_command :: "'n TreeWorkerMessage \<Rightarrow> string" where
  "tree_command (UpdateQuadtree ps) = ''updateQuadtree''"
| "tree_command (StartQuadtreeSearch x y t g) = ''startQuadtreeSearch''"
| "tree_command FinishInitQuadtree = ''finishInitQuadtree''"
| "tree_command (FinishQuadtreeSearch p) = ''finishQuadtreeSearch''"
| "tree_command (TreeOther c) = c"

definition treeWorkerMessageHandler ::
  "'n ui_env \<Rightarrow> 'n TreeWorkerMessage \<Rightarrow> 'n ui_state \<Rightarrow> 'n ui_state" where
  "treeWorkerMessageHandler env msg s =
     (case msg of
        FinishInitQuadtree \<Rightarrow> emit [LoaderWorkerPost (StartLoadData (dataURL_point env))] s
      | FinishQuadtreeSearch point \<Rightarrow>
          (case lastMouseClientPosition s of
             None \<Rightarrow>
               s\<lparr> ui_console := ui_console s
                      @ [''loaderWorkerMessageHandler: lastMouseClientPosition is null''] \<rparr>
           | Some (mouseX, mouseY) \<Rightarrow>
               let screenPointX = applyX s (xScale env (pt_x point));
                   screenPointY = applyY s (yScale env (pt_y point))
               in if workerDistance screenPointX screenPointY mouseX mouseY \<le> curHoverRadius env s
                  then highlightPoint env (Some (Clone point)) False s
                  else s)
      | _ \<Rightarrow> s\<lparr> ui_console := ui_console s @ [''Unknown message '' @ tree_command msg] \<rparr>)"

subsection \<open>Batches from the loader worker\<close>

definition initForceSimulation :: "'n ui_state \<Rightarrow> 'n ui_state" where
  "initForceSimulation s = s\<lparr> forceSimulation := True \<rparr>"

definition updateFooter :: "'n ui_state \<Rightarrow> 'n ui_state" where
  "updateFooter s =
     emit [FooterStoreSet (length (promptPoints s))]
       (s\<lparr> ui_loadedPointCount := length (promptPoints s) \<rparr>)"

text \<open>The branch of \<open>loaderWorkerMessageHandler\<close> for the first batch.\<close>

definition firstBatch :: "'n ui_env \<Rightarrow> real \<Rightarrow> 'n transfer_payload \<Rightarrow> 'n ui_state \<Rightarrow> 'n ui_state" where
  "firstBatch env now payload s =
     (let s1 = s\<lparr> promptPoints := points payload,
                   preSimPositions := Some (capturePositions (points payload)) \<rparr>;
          s2 = initWebGLBuffers s1;
          s3 = (if \<not> forceSimulation s2 then initForceSimulation s2 else s2);
          s4 = emit [UpdateSimulation (promptPoints s3)] s3;
          s5 = (if anyTrue env (showPoints s4) then drawScatterPlot env now False s4 else s4);
          s6 = (if pointsGroup s5 then emit [FadeInPoints] s5 else s5);
          s7 = (if showLabel s6 then emit [LayoutTopicLabels] s6 else s6)
      in emit [SearchWorkerPost (AddPoints (points payload))] s7)"

text \<open>
  The branch for every later batch.  The exception of \<open>updateWebGLBuffers\<close> leaves the
  handler with the new points already appended.
\<close>

definition laterBatch ::
  "'n ui_env \<Rightarrow> real \<Rightarrow> 'n transfer_payload \<Rightarrow> 'n ui_state \<Rightarrow> 'n ui_state outcome" where
  "laterBatch env now payload s =
     (let newPoints = points payload;
          s1 = emit [SearchWorkerPost (AddPoints newPoints)]
                 (s\<lparr> promptPoints := promptPoints s @ newPoints \<rparr>)
      in case updateWebGLBuffers newPoints s1 of
           Threw s2 \<Rightarrow> Threw s2
         | Returned s2 \<Rightarrow>
             let s3 = (case animationFrameId s2 of
                         Some frame \<Rightarrow>
                           if isAnimatingDispersal s2
                           then emit [CancelAnimationFrame frame]
                                  (s2\<lparr> animationFrameId := None, isAnimatingDispersal := False \<rparr>)
                           else s2
                       | None \<Rightarrow> s2);
                 s4 = s3\<lparr> preSimPositions := Some (capturePositions (promptPoints s3)) \<rparr>;
                 s5 = (if forceSimulation s4 then emit [UpdateSimulation (promptPoints s4)] s4
                       else s4);
                 s6 = (if anyTrue env (showPoints s5) then drawScatterPlot env now False s5
                       else s5)
             in Returned (if isLastBatch payload then rebuildPointQuadtree s6 else s6))"

definition loaderWorkerMessageHandler ::
  "'n ui_env \<Rightarrow> real \<Rightarrow> 'n LoaderWorkerMessage \<Rightarrow> 'n ui_state \<Rightarrow> 'n ui_state outcome" where
  "loaderWorkerMessageHandler env now msg s =
     (case msg of
        TransferLoadData payload \<Rightarrow>
          (let s1 = emit [TreeWorkerPost (UpdateQuadtree (points payload))] s
           in if isFirstBatch payload
              then Returned (updateFooter (firstBatch env now payload s1))
              else (case laterBatch env now payload s1 of
                      Threw s2 \<Rightarrow> Threw s2
                    | Returned s2 \<Rightarrow> Returned (updateFooter s2)))
      | _ \<Rightarrow> Returned (s\<lparr> ui_console := ui_console s @ [''Unknown message '' @ loader_command msg] \<rparr>))"

subsection \<open>The dispersal animation\<close>

definition ANIMATION_DURATION :: real where
  "ANIMATION_DURATION = 1200"

definition updatePointPositionsLightweight :: "'n ui_state \<Rightarrow> 'n ui_state" where
  "updatePointPositionsLightweight s =
     (if \<not> frontPositionBuffer s \<or> promptPoints s = [] then s
      else emit [WritePositions (map position_of (promptPoints s))] s)"

definition updatePointPositions :: "'n ui_state \<Rightarrow> 'n ui_state" where
  "updatePointPositions s =
     (if \<not> frontPositionBuffer s \<or> promptPoints s = [] then s
      else emit [WritePositions (map position_of (promptPoints s)),
                 TreeWorkerPost (UpdateQuadtree (promptPoints s))] s)"

text \<open>
  \<open>updatePointTransformsOnly\<close> sets the transform of every node from the position of its
  datum, which is the point with the id of the node.
\<close>

definition updatePointTransformsOnly :: "'n ui_env \<Rightarrow> 'n ui_state \<Rightarrow> 'n ui_state" where
  "updatePointTransformsOnly env s =
     (if \<not> pointsGroup s then s
      else emit [SetPointTransforms
                   (concat (map (\<lambda>e. case find (\<lambda>p. pt_id p = el_id e) (promptPoints s) of
                                        Some d \<Rightarrow> [(el_node e, xScale env (pt_x d), yScale env (pt_y d))]
                                      | None \<Rightarrow> [])
                              (elements s)))] s)"

text \<open>\<open>requestAnimationFrame(animate)\<close>: the browser hands out the next frame number.\<close>

definition requestFrame :: "'n ui_state \<Rightarrow> 'n ui_state" where
  "requestFrame s =
     emit [RequestAnimationFrame (nextFrameId s)]
       (s\<lparr> animationFrameId := Some (nextFrameId s), nextFrameId := Suc (nextFrameId s) \<rparr>)"

definition startDispersalAnimation :: "real \<Rightarrow> 'n ui_state \<Rightarrow> 'n ui_state" where
  "startDispersalAnimation now s =
     (if preSimPositions s = None \<or> postSimPositions s = None then s
      else requestFrame (s\<lparr> isAnimatingDispersal := True, animationStartTime := now \<rparr>))"

definition moveAll :: "(nat \<Rightarrow> 'n position option) \<Rightarrow> 'n PromptPoint list \<Rightarrow> 'n PromptPoint list" where
  "moveAll snapshot ps =
     map (\<lambda>p. case snapshot (pt_id p) of Some q \<Rightarrow> moveTo q p | None \<Rightarrow> p) ps"

text \<open>The lightweight rendering of a frame: the position buffer and the transforms.\<close>

definition renderFrame :: "'n ui_env \<Rightarrow> 'n ui_state \<Rightarrow> 'n ui_state" where
  "renderFrame env s = updatePointTransformsOnly env (updatePointPositionsLightweight s)"

text \<open>
  \<open>onSimulationComplete\<close> runs when the force simulation ends; the points then hold the
  positions that the simulation gave them.
\<close>

definition onSimulationComplete :: "'n ui_env \<Rightarrow> real \<Rightarrow> 'n ui_state \<Rightarrow> 'n ui_state" where
  "onSimulationComplete env now s =
     (let s1 = s\<lparr> postSimPositions := Some (capturePositions (promptPoints s)) \<rparr>;
          s2 = (case preSimPositions s1 of
                  Some pre \<Rightarrow> s1\<lparr> promptPoints := moveAll pre (promptPoints s1) \<rparr>
                | None \<Rightarrow> s1);
          s3 = (if \<not> frontPositionBuffer s2 then initWebGLBuffers s2 else s2)
      in startDispersalAnimation now (renderFrame env s3))"

text \<open>
  \<open>finalizeDispersalAnimation\<close>; \<open>now\<close> is the reading of the clock in its call of
  \<open>drawScatterPlot(false)\<close>.
\<close>

definition finalizeDispersalAnimation :: "'n ui_env \<Rightarrow> real \<Rightarrow> 'n ui_state \<Rightarrow> 'n ui_state" where
  "finalizeDispersalAnimation env now s =
     (let s1 = s\<lparr> isAnimatingDispersal := False, animationFrameId := None \<rparr>;
          s2 = (case postSimPositions s1 of
                  Some post \<Rightarrow> s1\<lparr> promptPoints := moveAll post (promptPoints s1) \<rparr>
                | None \<Rightarrow> s1);
          s3 = rebuildPointQuadtree (drawScatterPlot env now False (updatePointPositions s2))
      in s3\<lparr> preSimPositions := None, postSimPositions := None \<rparr>)"

text \<open>The cubic ease-in-out of the normalized time.\<close>

definition easeInOut :: "real \<Rightarrow> real" where
  "easeInOut t = (if t < 0.5 then 4 * t * t * t else 1 - (- 2 * t + 2) ^ 3 / 2)"

definition lerpPoint :: "real position \<Rightarrow> real position \<Rightarrow> real \<Rightarrow> real PromptPoint \<Rightarrow> real PromptPoint" where
  "lerpPoint pre post t p =
     p\<lparr> pt_x := pos_x pre + (pos_x post - pos_x pre) * t,
        pt_y := pos_y pre + (pos_y post - pos_y pre) * t \<rparr>"

definition lerpAll ::
  "(nat \<Rightarrow> real position option) \<Rightarrow> (nat \<Rightarrow> real position option) \<Rightarrow> real
     \<Rightarrow> real PromptPoint list \<Rightarrow> real PromptPoint list" where
  "lerpAll pre post t ps =
     map (\<lambda>p. case (pre (pt_id p), post (pt_id p)) of
                (Some a, Some b) \<Rightarrow> lerpPoint a b t p
              | _ \<Rightarrow> p) ps"

text \<open>
  One call of the frame callback \<open>animate(now)\<close>; \<open>clock\<close> is the reading of
  \<open>performance.now()\<close> when the frame finalizes.  With a snapshot missing and a point to
  move, \<open>this.preSimPositions!.get\<close> throws.
\<close>

definition animate ::
  "real ui_env \<Rightarrow> real \<Rightarrow> real \<Rightarrow> real ui_state \<Rightarrow> real ui_state outcome" where
  "animate env now clock s =
     (let elapsed = now - animationStartTime s;
          t = easeInOut (min (elapsed / ANIMATION_DURATION) 1)
      in if promptPoints s \<noteq> [] \<and> (preSimPositions s = None \<or> postSimPositions s = None)
         then Threw s
         else
           let moved = (case (preSimPositions s, postSimPositions s) of
                          (Some pre, Some post) \<Rightarrow> lerpAll pre post t (promptPoints s)
                        | _ \<Rightarrow> promptPoints s);
               s1 = renderFrame env (s\<lparr> promptPoints := moved \<rparr>)
           in if t \<ge> 1 then Returned (finalizeDispersalAnimation env clock s1)
              else Returned (requestFrame s1))"

subsection \<open>Replies of the search worker\<close>

fun search_command :: "'n SearchWorkerMessage \<Rightarrow> string" where
  "search_command (CheckModelStatus b) = ''checkModelStatus''"
| "search_command (AddPoints ps) = ''addPoints''"
| "search_command (StartQuery q i) = ''startQuery''"
| "search_command (FinishQuery rs) = ''finishQuery''"
| "search_command (SearchOther c) = c"

text \<open>
  \<open>searchWorkerMessageHandler\<close>; the update of the search bar store and the drawing of
  the result points are one effect.
\<close>

definition searchWorkerMessageHandler :: "'n SearchWorkerMessage \<Rightarrow> 'n ui_state \<Rightarrow> 'n ui_state" where
  "searchWorkerMessageHandler msg s =
     (case msg of
        CheckModelStatus isLoaded \<Rightarrow> (if isLoaded then emit [StartPlaceholderRotation] s else s)
      | FinishQuery resultIndexes \<Rightarrow> emit [ShowSearchResults resultIndexes] s
      | _ \<Rightarrow> s\<lparr> ui_console := ui_console s @ [''Unknown message '' @ search_command msg] \<rparr>)"

section \<open>The search worker\<close>

text \<open>
  The module-level variables of \<open>workers/search.ts\<close>: the texts added to the FlexSearch
  index, the stored embeddings, the model, with the messages posted to the main thread and
  the lines written with \<open>console.warn\<close> and \<open>console.error\<close>.
\<close>

record 'n search_state =
  lexicalIndex :: "(nat \<times> string) list"
  embeddings :: "nat \<Rightarrow> 'n json list option"
  embeddingModel :: bool
  isModelLoaded :: bool
  search_posted :: "'n SearchWorkerMessage list"
  search_console :: "string list"

text \<open>
  What the worker takes from the platform and from libraries: \<open>JSON.parse\<close>, whether the
  transformer pipeline loads, and the ranked ids that the lexical and the semantic search
  give for a query (\<open>None\<close> when the search throws).
\<close>

record 'n search_env =
  worker_JSON_parse :: "string \<Rightarrow> 'n json option"
  modelLoads :: bool
  rankedResults :: "'n search_state \<Rightarrow> string \<Rightarrow> nat list option"

definition getEmbeddingModel :: "'n search_env \<Rightarrow> 'n search_state \<Rightarrow> 'n search_state outcome" where
  "getEmbeddingModel env s =
     (if \<not> embeddingModel s
      then (if modelLoads env
            then Returned (s\<lparr> embeddingModel := True, isModelLoaded := True,
                              search_posted := search_posted s @ [CheckModelStatus True] \<rparr>)
            else Threw s)
      else Returned s)"

text \<open>
  \<open>addPoints\<close> for one point.  An array is stored when its first element is a number; a
  non-empty string is cleaned and parsed and stored under the same test.  A number in
  \<open>currEmbedding\<close>, which the loader never puts there, is taken to be truthy.
\<close>

definition addPoint :: "'n search_env \<Rightarrow> 'n PromptPoint \<Rightarrow> 'n search_state \<Rightarrow> 'n search_state" where
  "addPoint env point s =
     (let s1 = (if prompt point \<noteq> []
                then s\<lparr> lexicalIndex := lexicalIndex s @
                         [(pt_id point,
                           prompt point @ (if currSummary point \<noteq> [] then '' '' @ currSummary point
                                           else []))] \<rparr>
                else s);
          invalid = s1\<lparr> search_console := search_console s1
                                              @ [''Invalid embedding format for point''] \<rparr>
      in case currEmbedding point of
           JArr (JNum v # vs) \<Rightarrow> s1\<lparr> embeddings := (embeddings s1)(pt_id point \<mapsto> JNum v # vs) \<rparr>
         | JStr str \<Rightarrow>
             (if str = [] then s1
              else (case worker_JSON_parse env (cleanQuotes str) of
                      None \<Rightarrow> s1\<lparr> search_console := search_console s1
                                       @ [''Failed to parse embedding string for point''] \<rparr>
                    | Some (JArr (JNum v # vs)) \<Rightarrow>
                        s1\<lparr> embeddings := (embeddings s1)(pt_id point \<mapsto> JNum v # vs) \<rparr>
                    | Some other \<Rightarrow> invalid))
         | JNull \<Rightarrow> s1
         | JBool b \<Rightarrow> (if b then invalid else s1)
         | _ \<Rightarrow> invalid)"

definition searchPoint :: "'n search_env \<Rightarrow> string \<Rightarrow> nat \<Rightarrow> 'n search_state \<Rightarrow> 'n search_state" where
  "searchPoint env query queryID s =
     (case rankedResults env s query of
        Some resultIndexes \<Rightarrow> s\<lparr> search_posted := search_posted s @ [FinishQuery resultIndexes] \<rparr>
      | None \<Rightarrow>
          s\<lparr> search_posted := search_posted s @ [FinishQuery []],
             search_console := search_console s @ [''Error in search:''] \<rparr>)"

definition search_onmessage ::
  "'n search_env \<Rightarrow> 'n SearchWorkerMessage \<Rightarrow> 'n search_state \<Rightarrow> 'n search_state outcome" where
  "search_onmessage env msg s =
     (case msg of
        CheckModelStatus b \<Rightarrow> getEmbeddingModel env s
      | AddPoints ps \<Rightarrow> Returned (foldl (\<lambda>s p. addPoint env p s) s ps)
      | StartQuery query queryID \<Rightarrow> Returned (searchPoint env query queryID s)
      | _ \<Rightarrow> Returned (s\<lparr> search_console := search_console s
                              @ [''Worker: unknown message '' @ search_command msg] \<rparr>))"

section \<open>Recognized commands and sample states\<close>

text \<open>The commands that have a case in the \<open>switch\<close> of each handler.\<close>

fun loader_worker_recognizes :: "'n LoaderWorkerMessage \<Rightarrow> bool" where
  "loader_worker_recognizes (StartLoadData url) = True"
| "loader_worker_recognizes _ = False"

fun ui_recognizes_loader :: "'n LoaderWorkerMessage \<Rightarrow> bool" where
  "ui_recognizes_loader (TransferLoadData payload) = True"
| "ui_recognizes_loader _ = False"

fun ui_recognizes_tree :: "'n TreeWorkerMessage \<Rightarrow> bool" where
  "ui_recognizes_tree FinishInitQuadtree = True"
| "ui_recognizes_tree (FinishQuadtreeSearch p) = True"
| "ui_recognizes_tree _ = False"

fun ui_recognizes_search :: "'n SearchWorkerMessage \<Rightarrow> bool" where
  "ui_recognizes_search (CheckModelStatus b) = True"
| "ui_recognizes_search (FinishQuery rs) = True"
| "ui_recognizes_search _ = False"

fun search_worker_recognizes :: "'n SearchWorkerMessage \<Rightarrow> bool" where
  "search_worker_recognizes (CheckModelStatus b) = True"
| "search_worker_recognizes (AddPoints ps) = True"
| "search_worker_recognizes (StartQuery q i) = True"
| "search_worker_recognizes _ = False"

text \<open>
  The fields of a freshly constructed \<open>Embedding\<close> with its canvases and matrices set up,
  all points shown, and the identity zoom transform.
\<close>

definition ui_init :: "'n ui_state" where
  "ui_init =
     \<lparr> promptPoints = [], ui_loadedPointCount = 1,
       preSimPositions = None, postSimPositions = None,
       isAnimatingDispersal = False, animationFrameId = None, animationStartTime = 0,
       nextFrameId = 1, forceSimulation = False, pointQuadtree = None,
       gridData = True, webGLMatrices = True,
       frontPositionBuffer = False, frontTextureCoordinateBuffer = False,
       frontBufferPointSize = 0,
       showPoints = [True], showLabel = False, hideHighlights = False, groupNames = False,
       curPointWidth = 1, svgHeight = 760,
       timeInspectMode = False, timeCountMap = None, curTime = None,
       zoom_k = 1, zoom_x = 0, zoom_y = 0,
       hoverPoint = None, lastMouseClientPosition = None,
       pointMouseenterTimer = False, pointMouseleaveTimer = False,
       lastDrawTime = 0, pointsGroup = False, elements = [], nextNode = 0,
       imageAspectRatioCache = Map.empty, images = [], trace = [], ui_console = [] \<rparr>"

text \<open>
  Identity scales, a \<open>find\<close> that answers with the first point, and a dot radius of 1.
\<close>

definition sample_env :: "real ui_env" where
  "sample_env =
     \<lparr> xScale = (\<lambda>v. v), yScale = (\<lambda>v. v),
       xScale_invert = (\<lambda>v. v), yScale_invert = (\<lambda>v. v),
       quadtree_find = (\<lambda>tree ps x y. if tree = [] then None else Some 0),
       anyTrue = (\<lambda>bs. True \<in> set bs), allTrue = (\<lambda>bs. False \<notin> set bs),
       scatterDotRadius = 1, ui_BASE_URL = ''/'', dataURL_point = ''data.ndjson'' \<rparr>"

definition sample_point :: "nat \<Rightarrow> real \<Rightarrow> real \<Rightarrow> real PromptPoint" where
  "sample_point i vx vy =
     \<lparr> pt_x = vx, pt_y = vy, prompt = ''Ada: nlp'', pt_id = i, tooltipInfo = ''Ada: nlp'',
       currEmbedding = JArr [], pt_name = ''Ada'', currURL = Some ''a.jpg'',
       currCitationCount = 0, currSummary = [], currKeywords = ''nlp'',
       googleScholarURLs = JNull, googleScholarKeywords = JNull,
       currAffiliations = JNull, homePageURL = JNull \<rparr>"

definition sample_search_env :: "real search_env" where
  "sample_search_env =
     \<lparr> worker_JSON_parse = (\<lambda>s. None), modelLoads = True,
       rankedResults = (\<lambda>s q. Some []) \<rparr>"

definition search_init :: "'n search_state" where
  "search_init =
     \<lparr> lexicalIndex = [], embeddings = Map.empty, embeddingModel = False,
       isModelLoaded = False, search_posted = [], search_console = [] \<rparr>"

text \<open>The same page once the WebGL buffers exist.\<close>

definition ui_ready :: "'n ui_state" where
  "ui_ready = ui_init\<lparr> frontPositionBuffer := True, frontTextureCoordinateBuffer := True \<rparr>"

text \<open>The nodes that enter in a draw in state \<open>s\<close>.\<close>

definition enteringNodes :: "'n ui_env \<Rightarrow> 'n ui_state \<Rightarrow> point_element list" where
  "enteringNodes env s = map fst (filter snd (mergedNodes env s))"

text \<open>The effects that a step added to the trace.\<close>

definition added :: "'n ui_state \<Rightarrow> 'n ui_state \<Rightarrow> 'n ui_effect list" where
  "added s s' = drop (length (trace s)) (trace s')"

text \<open>
  A page with one point whose picture is \<open>a.jpg\<close>: the first draw, the end of the two
  loads that it started (the picture is square), and a second draw.
\<close>

definition one_point_page :: "real ui_state" where
  "one_point_page = ui_ready\<lparr> promptPoints := [sample_point 0 0 0], ui_loadedPointCount := 1 \<rparr>"

definition after_first_draw :: "real ui_state" where
  "after_first_draw = drawScatterPlot sample_env 100 False one_point_page"

definition after_loads :: "real ui_state" where
  "after_loads = imageLoaded 0 1 (imageLoaded 0 1 after_first_draw)"

definition after_second_draw :: "real ui_state" where
  "after_second_draw = drawScatterPlot sample_env 200 False after_loads"

text \<open>
  The page after the loads when a second point with the same picture has arrived, and the
  page with one point at the zoom scale 40.
\<close>

definition shared_picture_page :: "real ui_state" where
  "shared_picture_page =
     after_loads\<lparr> promptPoints := [sample_point 0 0 0, sample_point 1 5 6] \<rparr>"

definition zoomed_in_page :: "real ui_state" where
  "zoomed_in_page = one_point_page\<lparr> zoom_k := 40 \<rparr>"

text \<open>
  A page in the middle of a dispersal animation, with one point, and a later batch with a
  second point.
\<close>

definition animating_page :: "real ui_state" where
  "animating_page =
     ui_ready\<lparr> promptPoints := [sample_point 0 1 2], ui_loadedPointCount := 1,
               preSimPositions := Some [0 \<mapsto> \<lparr> pos_x = 0, pos_y = 0 \<rparr>],
               postSimPositions := Some [0 \<mapsto> \<lparr> pos_x = 3, pos_y = 4 \<rparr>],
               isAnimatingDispersal := True, animationFrameId := Some 7,
               forceSimulation := True \<rparr>"

definition later_payload :: "real transfer_payload" where
  "later_payload =
     \<lparr> isFirstBatch = False, isLastBatch = False, points = [sample_point 1 5 6],
       payload_loadedPointCount = 2 \<rparr>"

text \<open>
  The same page when the scatter plot was last drawn at time 1195 (by a zoom gesture,
  say); the frame with timestamp 1200 finalizes at time 1201.
\<close>

definition just_drawn_page :: "real ui_state" where
  "just_drawn_page = animating_page\<lparr> lastDrawTime := 1195 \<rparr>"

text \<open>
  The full redraws in a trace: \<open>drawScatterPlot\<close> clears the canvas exactly when it draws
  with \<open>isPanningOnly\<close> false.
\<close>

definition fullRedraws :: "'n ui_effect list \<Rightarrow> nat" where
  "fullRedraws tr = length (filter (\<lambda>e. e = ReglClear) tr)"

text \<open>The state in which a handler ended, and whether it returned.\<close>

fun outcome_state :: "'a outcome \<Rightarrow> 'a" where
  "outcome_state (Returned s) = s"
| "outcome_state (Threw s) = s"

fun returned :: "'a outcome \<Rightarrow> bool" where
  "returned (Returned s) = True"
| "returned (Threw s) = False"

definition after_final_frame :: "real ui_state" where
  "after_final_frame = outcome_state (animate sample_env 1200 1201 just_drawn_page)"

text \<open>
  A page whose quadtree is built, with one point at \<open>(7, 0)\<close> and a point width of 2.5,
  and a page with a point at \<open>(8, 8)\<close> whose quadtree is not built yet (the first batch
  has arrived, the animation has not ended); the pointer was last seen at the origin.
\<close>

definition hover_page :: "real ui_state" where
  "hover_page =
     ui_ready\<lparr> promptPoints := [sample_point 0 7 0], ui_loadedPointCount := 1,
               pointQuadtree := Some [\<lparr> pos_x = 7, pos_y = 0 \<rparr>],
               curPointWidth := 2.5 \<rparr>"

definition unindexed_page :: "real ui_state" where
  "unindexed_page =
     ui_ready\<lparr> promptPoints := [sample_point 0 8 8], ui_loadedPointCount := 1,
               lastMouseClientPosition := Some (0, 0) \<rparr>"

text \<open>A page whose quadtree was built before any point arrived.\<close>

definition empty_tree_page :: "real ui_state" where
  "empty_tree_page =
     ui_ready\<lparr> promptPoints := [sample_point 0 7 0], ui_loadedPointCount := 1,
               pointQuadtree := Some [] \<rparr>"

section \<open>Properties of the loader worker\<close>

subsection \<open>The invariant of the reading loop\<close>

lemma points_from_snoc:
  "points_from pf 0 (recs @ [r]) = points_from pf 0 recs @ [makePromptPoint pf (length recs) r]"
  by (simp add: points_from_def)

lemma loader_inv_init: "loader_inv pf [] loader_init"
  by (simp add: loader_inv_def loader_init_def points_from_def POINT_THRESHOLD_def)

lemma loader_inv_step:
  assumes "loader_inv pf recs s"
  shows "loader_inv pf (recs @ [r]) (processPointStream pf r s)"
  using assms
  by (auto simp: loader_inv_def processPointStream_def Let_def points_from_snoc)

lemma readLoop_values:
  "readLoop pf (map ReadValue recs) s =
     pointStreamFinished (foldl (\<lambda>s r. processPointStream pf r s) s recs)"
  by (induction recs arbitrary: s) simp_all

lemma streamed_inv: "loader_inv pf recs (streamed pf recs)"
  unfolding streamed_def
  by (induction recs rule: rev_induct) (simp_all add: loader_inv_init loader_inv_step)

lemma load_records_eq: "load_records pf recs = pointStreamFinished (streamed pf recs)"
  by (simp add: load_records_def loader_onmessage_def startLoadData_def readLoop_values
      streamed_def)

lemma emitted_eq:
  "emitted pf recs = posted (streamed pf recs) @
     [TransferLoadData
        \<lparr> isFirstBatch = (lastDrawnPoints (streamed pf recs) = None),
          isLastBatch = True,
          points = pendingDataPoints (streamed pf recs),
          payload_loadedPointCount = loadedPointCount (streamed pf recs) \<rparr>]"
  by (simp add: emitted_def load_records_eq pointStreamFinished_def)

lemma length_concat_const:
  "\<forall>m \<in> set ms. length (f m) = c \<Longrightarrow> length (concat (map f ms)) = c * length ms"
  by (induction ms) simp_all

lemma map_const_replicate:
  "\<forall>m \<in> set ms. f m = c \<Longrightarrow> map f ms = replicate (length ms) c"
  by (induction ms) simp_all

lemma length_points_from: "length (points_from pf k recs) = length recs"
  by (simp add: points_from_def)

lemma pt_id_makePromptPoint: "pt_id (makePromptPoint pf i r) = i"
  by (simp add: makePromptPoint_def Let_def)

lemma ids_points_from: "map pt_id (points_from pf k recs) = [k ..< k + length recs]"
proof -
  have "map pt_id (points_from pf k recs) = map fst (zip [k ..< k + length recs] recs)"
    unfolding points_from_def map_map
    by (rule map_cong) (auto simp: pt_id_makePromptPoint)
  then show ?thesis
    by simp
qed

lemma loader_inv_counts:
  assumes "loader_inv pf recs s"
  shows "length (posted s) = length recs div POINT_THRESHOLD"
    and "length (pendingDataPoints s) = length recs mod POINT_THRESHOLD"
proof -
  let ?T = POINT_THRESHOLD
  have len: "length (concat (map batch_points (posted s))) = ?T * length (posted s)"
    using assms by (intro length_concat_const) (simp add: loader_inv_def)
  have "length (concat (map batch_points (posted s)) @ pendingDataPoints s) = length recs"
    using assms by (simp add: loader_inv_def length_points_from)
  then have sum: "?T * length (posted s) + length (pendingDataPoints s) = length recs"
    using len by simp
  have lt: "length (pendingDataPoints s) < ?T"
    using assms by (simp add: loader_inv_def)
  show "length (posted s) = length recs div ?T"
    using sum lt
    by (metis div_mult_self4 div_less add.commute add_cancel_left_left less_nat_zero_code)
  show "length (pendingDataPoints s) = length recs mod ?T"
    using sum lt by (metis mod_mult_self4 mod_less)
qed

lemma loader_inv_pending:
  assumes "loader_inv pf recs s"
  shows "pendingDataPoints s =
           drop (POINT_THRESHOLD * (length recs div POINT_THRESHOLD)) (points_from pf 0 recs)"
proof -
  have len: "length (concat (map batch_points (posted s))) = POINT_THRESHOLD * length (posted s)"
    using assms by (intro length_concat_const) (simp add: loader_inv_def)
  have "concat (map batch_points (posted s)) @ pendingDataPoints s = points_from pf 0 recs"
    using assms by (simp add: loader_inv_def)
  then have "drop (length (concat (map batch_points (posted s)))) (points_from pf 0 recs)
               = pendingDataPoints s"
    by (metis append_eq_conv_conj)
  then show ?thesis
    using len loader_inv_counts(1)[OF assms] by simp
qed

subsection \<open>The batches of a whole stream\<close>

lemma emitted_concat: "concat (map batch_points (emitted pf recs)) = points_from pf 0 recs"
  using streamed_inv[of pf recs] by (simp add: emitted_eq loader_inv_def)

lemma emitted_transfer: "list_all is_transfer (emitted pf recs)"
  using streamed_inv[of pf recs] by (simp add: emitted_eq loader_inv_def list_all_iff)

lemma emitted_sizes:
  "map (\<lambda>m. length (batch_points m)) (emitted pf recs) =
     replicate (length recs div POINT_THRESHOLD) POINT_THRESHOLD @ [length recs mod POINT_THRESHOLD]"
proof -
  have "map (\<lambda>m. length (batch_points m)) (posted (streamed pf recs)) =
          replicate (length (posted (streamed pf recs))) POINT_THRESHOLD"
    using streamed_inv[of pf recs] by (intro map_const_replicate) (simp add: loader_inv_def)
  then show ?thesis
    using loader_inv_counts[OF streamed_inv, of pf recs] by (simp add: emitted_eq)
qed

lemma emitted_isLast:
  "map batch_isLast (emitted pf recs) =
     replicate (length recs div POINT_THRESHOLD) False @ [True]"
proof -
  have "map batch_isLast (posted (streamed pf recs)) =
          replicate (length (posted (streamed pf recs))) False"
    using streamed_inv[of pf recs] by (intro map_const_replicate) (simp add: loader_inv_def)
  then show ?thesis
    using loader_inv_counts[OF streamed_inv, of pf recs] by (simp add: emitted_eq)
qed

lemma first_flags:
  assumes "length xs = Suc k" and "\<forall>i < length xs. f (xs ! i) = (i = 0)"
  shows "map f xs = True # replicate k False"
proof (rule nth_equalityI)
  show "length (map f xs) = length (True # replicate k False)"
    using assms(1) by simp
next
  fix i assume "i < length (map f xs)"
  then have i: "i < length xs"
    by simp
  then have "f (xs ! i) = (i = 0)"
    using assms(2) by blast
  then show "map f xs ! i = (True # replicate k False) ! i"
    using i assms(1) by (cases i) simp_all
qed

lemma emitted_isFirst:
  "map batch_isFirst (emitted pf recs) =
     True # replicate (length recs div POINT_THRESHOLD) False"
proof -
  let ?ps = "posted (streamed pf recs)"
  have first: "map batch_isFirst ?ps = map (\<lambda>i. i = 0) [0 ..< length ?ps]"
    and none: "(?ps = []) = (lastDrawnPoints (streamed pf recs) = None)"
    using streamed_inv[of pf recs] by (simp_all add: loader_inv_def)
  have len: "length ?ps = length recs div POINT_THRESHOLD"
    using loader_inv_counts[OF streamed_inv, of pf recs] by simp
  have nth: "\<forall>i < length ?ps. batch_isFirst (?ps ! i) = (i = 0)"
  proof (intro allI impI)
    fix i assume i: "i < length ?ps"
    then have "map batch_isFirst ?ps ! i = map (\<lambda>i. i = 0) [0 ..< length ?ps] ! i"
      using first by simp
    then show "batch_isFirst (?ps ! i) = (i = 0)"
      using i by simp
  qed
  have "\<forall>i < length (emitted pf recs). batch_isFirst (emitted pf recs ! i) = (i = 0)"
    using nth none by (auto simp: emitted_eq nth_append)
  moreover have "length (emitted pf recs) = Suc (length recs div POINT_THRESHOLD)"
    using len by (simp add: emitted_eq)
  ultimately show ?thesis
    by (rule first_flags[rotated])
qed

lemma emitted_last:
  "last (emitted pf recs) =
     TransferLoadData
       \<lparr> isFirstBatch = (length recs < POINT_THRESHOLD),
         isLastBatch = True,
         points = drop (POINT_THRESHOLD * (length recs div POINT_THRESHOLD)) (points_from pf 0 recs),
         payload_loadedPointCount = length recs \<rparr>"
proof -
  have none: "(lastDrawnPoints (streamed pf recs) = None) = (posted (streamed pf recs) = [])"
    and loaded: "loadedPointCount (streamed pf recs) = length recs"
    using streamed_inv[of pf recs] by (simp_all add: loader_inv_def)
  have "(posted (streamed pf recs) = []) = (length recs div POINT_THRESHOLD = 0)"
    using loader_inv_counts(1)[OF streamed_inv, of pf recs] by (metis length_0_conv)
  also have "\<dots> = (length recs < POINT_THRESHOLD)"
    by (simp add: POINT_THRESHOLD_def div_eq_0_iff)
  finally have "(lastDrawnPoints (streamed pf recs) = None) = (length recs < POINT_THRESHOLD)"
    using none by simp
  then show ?thesis
    using loaded loader_inv_pending[OF streamed_inv, of pf recs] by (simp add: emitted_eq)
qed

text \<open>
  C1.  For every stream of valid records the batches posted by the loader hold, taken in
  the order of emission, exactly the points of the records in stream order; every batch
  but the last holds exactly 5000 points and is not tagged \<open>isLastBatch\<close>; the last batch
  holds the remaining points and is tagged \<open>isLastBatch\<close>; only the first batch is tagged
  \<open>isFirstBatch\<close>.  A stream of 12000 records gives three batches of 5000, 5000 and 2000
  points.
\<close>

theorem loader_batches_in_stream_order:
  "concat (map batch_points (emitted pf recs)) = points_from pf 0 recs
   \<and> list_all is_transfer (emitted pf recs)
   \<and> map (\<lambda>m. length (batch_points m)) (emitted pf recs)
       = replicate (length recs div 5000) 5000 @ [length recs mod 5000]
   \<and> map batch_isLast (emitted pf recs) = replicate (length recs div 5000) False @ [True]
   \<and> map batch_isFirst (emitted pf recs) = True # replicate (length recs div 5000) False
   \<and> (length recs = 12000 \<longrightarrow>
        map (\<lambda>m. length (batch_points m)) (emitted pf recs) = [5000, 5000, 2000]
        \<and> map batch_isLast (emitted pf recs) = [False, False, True]
        \<and> map batch_isFirst (emitted pf recs) = [True, False, False])"
proof -
  have sizes: "map (\<lambda>m. length (batch_points m)) (emitted pf recs)
                 = replicate (length recs div 5000) 5000 @ [length recs mod 5000]"
    using emitted_sizes[of pf recs] by (simp add: POINT_THRESHOLD_def)
  have lasts: "map batch_isLast (emitted pf recs) = replicate (length recs div 5000) False @ [True]"
    using emitted_isLast[of pf recs] by (simp add: POINT_THRESHOLD_def)
  have firsts: "map batch_isFirst (emitted pf recs) = True # replicate (length recs div 5000) False"
    using emitted_isFirst[of pf recs] by (simp add: POINT_THRESHOLD_def)
  have "map (\<lambda>m. length (batch_points m)) (emitted pf recs) = [5000, 5000, 2000]
          \<and> map batch_isLast (emitted pf recs) = [False, False, True]
          \<and> map batch_isFirst (emitted pf recs) = [True, False, False]"
    if n: "length recs = 12000"
  proof -
    from n have dv: "length recs div 5000 = Suc (Suc 0)" and md: "length recs mod 5000 = 2000"
      by simp_all
    show ?thesis
      using sizes lasts firsts unfolding dv md by simp
  qed
  then show ?thesis
    using sizes lasts firsts emitted_concat[of pf recs] emitted_transfer[of pf recs] by blast
qed

theorem loader_batches_in_stream_order_witness:
  "length (sample_stream 12000) = 12000
   \<and> map (\<lambda>m. length (batch_points m)) (emitted sample_platform (sample_stream 12000))
       = [5000, 5000, 2000]
   \<and> map batch_isLast (emitted sample_platform (sample_stream 12000)) = [False, False, True]
   \<and> map batch_isFirst (emitted sample_platform (sample_stream 12000)) = [True, False, False]"
proof -
  have n: "length (sample_stream 12000) = 12000"
    by (simp only: sample_stream_def length_replicate)
  show ?thesis
    using n loader_batches_in_stream_order [of sample_platform "sample_stream 12000"]
    by blast
qed

subsection \<open>Identifiers\<close>

lemma filter_same_key:
  "distinct (map f xs) \<Longrightarrow> k \<in> set xs \<Longrightarrow> filter (\<lambda>x. f k = f x) xs = [k]"
proof (induction xs)
  case Nil
  then show ?case by simp
next
  case (Cons a xs)
  show ?case
  proof (cases "a = k")
    case True
    have "filter (\<lambda>x. f k = f x) xs = []"
      using Cons.prems(1) True by (auto simp: filter_empty_conv)
    then show ?thesis
      using True by simp
  next
    case False
    then have "k \<in> set xs"
      using Cons.prems(2) by simp
    moreover have "f k \<noteq> f a"
      using Cons.prems(1) calculation
      by (metis distinct.simps(2) image_eqI list.simps(9) set_map)
    ultimately show ?thesis
      using Cons by simp
  qed
qed

lemma sort_key_reconstructs:
  assumes "mset ps = mset qs" and "distinct (map f qs)" and "sorted (map f qs)"
  shows "sort_key f ps = qs"
proof (rule properties_for_sort_key)
  show "mset qs = mset ps"
    using assms(1) by simp
next
  show "sorted (map f qs)"
    by (rule assms(3))
next
  fix k assume k: "k \<in> set qs"
  have "mset (map f ps) = mset (map f qs)"
    using assms(1) by (metis mset_map)
  then have dps: "distinct (map f ps)"
    using assms(2) by (metis mset_eq_imp_distinct_iff)
  have kps: "k \<in> set ps"
    using k assms(1) by (metis mset_eq_setD)
  show "filter (\<lambda>x. f k = f x) qs = filter (\<lambda>x. f k = f x) ps"
    using filter_same_key[OF assms(2) k] filter_same_key[OF dps kps] by simp
qed

text \<open>
  C2.  After a whole stream the loader's point count equals the number of records read,
  every point has been sent, the ids of the points in order of arrival are
  \<open>0, 1, 2, \<dots>\<close> without a gap, the point with id \<open>i\<close> is the one built from the
  \<open>i\<close>-th record, and sorting any rearrangement of the sent points by id gives back the
  points in the order of their records.
\<close>

theorem loader_ids_contiguous_in_arrival_order:
  "loadedPointCount (load_records pf recs) = length recs
   \<and> sentPointCount (load_records pf recs) = length recs
   \<and> concat (map batch_points (emitted pf recs)) = points_from pf 0 recs
   \<and> map pt_id (concat (map batch_points (emitted pf recs))) = [0 ..< length recs]
   \<and> (\<forall>ps. mset ps = mset (concat (map batch_points (emitted pf recs)))
          \<longrightarrow> sort_key pt_id ps = points_from pf 0 recs)"
proof -
  have inv: "loader_inv pf recs (streamed pf recs)"
    by (rule streamed_inv)
  have loaded: "loadedPointCount (load_records pf recs) = length recs"
    using inv by (simp add: load_records_eq pointStreamFinished_def loader_inv_def)
  have "length (concat (map batch_points (posted (streamed pf recs))) @
                pendingDataPoints (streamed pf recs)) = length recs"
    using inv by (simp add: loader_inv_def length_points_from)
  then have sent: "sentPointCount (load_records pf recs) = length recs"
    using inv by (simp add: load_records_eq pointStreamFinished_def loader_inv_def)
  have ids: "map pt_id (points_from pf 0 recs) = [0 ..< length recs]"
    using ids_points_from[of pf 0 recs] by simp
  have "sort_key pt_id ps = points_from pf 0 recs"
    if "mset ps = mset (points_from pf 0 recs)" for ps
    using that by (rule sort_key_reconstructs) (simp_all add: ids)
  then show ?thesis
    using loaded sent ids by (simp add: emitted_concat)
qed

theorem loader_ids_contiguous_in_arrival_order_witness:
  "sort_key pt_id
     (rev (concat (map batch_points
        (emitted sample_platform
           [sample_record ''Ada'' (EmbArray [1, 2]), sample_record ''Bob'' (EmbString ''3'')]))))
   = points_from sample_platform 0
       [sample_record ''Ada'' (EmbArray [1, 2]), sample_record ''Bob'' (EmbString ''3'')]
   \<and> map pt_id (points_from sample_platform 0
       [sample_record ''Ada'' (EmbArray [1, 2]), sample_record ''Bob'' (EmbString ''3'')]) = [0, 1]"
  using loader_ids_contiguous_in_arrival_order
    [of sample_platform
        "[sample_record ''Ada'' (EmbArray [1, 2]), sample_record ''Bob'' (EmbString ''3'')]"]
  by (simp add: points_from_def pt_id_makePromptPoint)

subsection \<open>The final batch\<close>

text \<open>
  C10.  \<open>pointStreamFinished\<close> always posts one more \<open>transferLoadData\<close> message, tagged
  \<open>isLastBatch\<close>, with whatever is pending, also when nothing is pending.  For a whole
  stream it is the only message tagged \<open>isLastBatch\<close>; when the number of records is a
  multiple of 5000 its points array is empty; for the empty stream it is the only message
  and it is tagged \<open>isFirstBatch\<close> as well.
\<close>

theorem loader_final_batch_always_emitted:
  "posted (pointStreamFinished s) = posted s @
     [TransferLoadData
        \<lparr> isFirstBatch = (lastDrawnPoints s = None), isLastBatch = True,
          points = pendingDataPoints s, payload_loadedPointCount = loadedPointCount s \<rparr>]
   \<and> length (filter batch_isLast (emitted pf recs)) = 1
   \<and> batch_isLast (last (emitted pf recs))
   \<and> (5000 dvd length recs \<longrightarrow>
        last (emitted pf recs) =
          TransferLoadData
            \<lparr> isFirstBatch = (recs = []), isLastBatch = True,
              points = [], payload_loadedPointCount = length recs \<rparr>)
   \<and> emitted pf [] =
        [TransferLoadData
           \<lparr> isFirstBatch = True, isLastBatch = True,
             points = [], payload_loadedPointCount = 0 \<rparr>]"
proof -
  have fin: "posted (pointStreamFinished s) = posted s @
     [TransferLoadData
        \<lparr> isFirstBatch = (lastDrawnPoints s = None), isLastBatch = True,
          points = pendingDataPoints s, payload_loadedPointCount = loadedPointCount s \<rparr>]"
    by (simp add: pointStreamFinished_def)
  have "filter (\<lambda>b. b) (replicate k False @ [True]) = [True]" for k
    by (induction k) simp_all
  then have "filter (\<lambda>b. b) (map batch_isLast (emitted pf recs)) = [True]"
    by (simp only: emitted_isLast)
  then have "map batch_isLast (filter batch_isLast (emitted pf recs)) = [True]"
    by (simp add: filter_map comp_def)
  then have "length (map batch_isLast (filter batch_isLast (emitted pf recs))) = 1"
    by (simp only: list.size One_nat_def add_0)
  then have one: "length (filter batch_isLast (emitted pf recs)) = 1"
    by (simp only: length_map)
  have lst: "batch_isLast (last (emitted pf recs))"
    by (simp add: emitted_last)
  have mult: "last (emitted pf recs) =
          TransferLoadData
            \<lparr> isFirstBatch = (recs = []), isLastBatch = True,
              points = [], payload_loadedPointCount = length recs \<rparr>"
    if d: "5000 dvd length recs"
  proof -
    have "5000 * (length recs div 5000) = length recs"
      using d by simp
    then have "drop (POINT_THRESHOLD * (length recs div POINT_THRESHOLD)) (points_from pf 0 recs) = []"
      by (simp add: POINT_THRESHOLD_def length_points_from)
    moreover have "(length recs < POINT_THRESHOLD) = (recs = [])"
    proof (cases "recs = []")
      case True
      then show ?thesis
        by (simp add: POINT_THRESHOLD_def)
    next
      case False
      then have "0 < length recs"
        by simp
      then have "5000 \<le> length recs"
        using d by (rule dvd_imp_le[rotated])
      then show ?thesis
        using False by (simp add: POINT_THRESHOLD_def)
    qed
    ultimately show ?thesis
      by (simp add: emitted_last)
  qed
  have empty: "emitted pf [] =
        [TransferLoadData
           \<lparr> isFirstBatch = True, isLastBatch = True,
             points = [], payload_loadedPointCount = 0 \<rparr>]"
    by (simp add: emitted_eq streamed_def loader_init_def)
  show ?thesis
    by (intro conjI impI) (rule fin one lst mult empty | assumption)+
qed

theorem loader_final_batch_always_emitted_witness:
  "5000 dvd length (sample_stream 10000)
   \<and> last (emitted sample_platform (sample_stream 10000)) =
        TransferLoadData
          \<lparr> isFirstBatch = False, isLastBatch = True,
            points = [], payload_loadedPointCount = 10000 \<rparr>"
proof -
  have n: "length (sample_stream 10000) = 10000"
    by (simp only: sample_stream_def length_replicate)
  have d: "5000 dvd length (sample_stream 10000)"
    unfolding n by simp
  have ne: "(sample_stream 10000 = []) = False"
    using n by (metis length_0_conv zero_neq_numeral)
  have "last (emitted sample_platform (sample_stream 10000)) =
          TransferLoadData
            \<lparr> isFirstBatch = (sample_stream 10000 = []), isLastBatch = True,
              points = [], payload_loadedPointCount = length (sample_stream 10000) \<rparr>"
    using d loader_final_batch_always_emitted [of loader_init sample_platform "sample_stream 10000"]
    by blast
  then show ?thesis
    using d unfolding n ne by simp
qed

subsection \<open>The embedding field\<close>

lemma parseEmbeddingString_array:
  "parseEmbeddingString pf (EmbArray vs) = JArr (map JNum vs)"
  by (cases vs) (simp_all add: parseEmbeddingString_def)

lemma parseEmbeddingString_fallback:
  "JSON_parse pf (ensureBrackets (cleanQuotes str)) = None \<Longrightarrow>
   parseEmbeddingString pf (EmbString str) =
     JArr (map (\<lambda>tok. JNum (Number pf tok)) (numberMatches (ensureBrackets (cleanQuotes str))))"
  by (simp add: parseEmbeddingString_def Let_def split: list.splits)

lemma processPointStream_appends:
  "concat (map batch_points (posted (processPointStream pf point s)))
     @ pendingDataPoints (processPointStream pf point s)
   = concat (map batch_points (posted s)) @ pendingDataPoints s
       @ [makePromptPoint pf (loadedPointCount s) point]"
  by (simp add: processPointStream_def Let_def)

text \<open>
  C7.  \<open>parseEmbeddingString\<close> has a value for every input and no exception leaves it:
  a number array is returned as it is, a number gives the empty array, and a string whose
  cleaned text \<open>JSON.parse\<close> rejects gives the numbers of its numeric tokens (the empty
  array when it has none); the record is appended as a point whatever its embedding field
  holds.  But when \<open>JSON.parse\<close> accepts the cleaned text, its value is returned
  whatever it holds: the function does not check that it is an array of numbers, and for
  the text \<open> [1, 2]\<close> with a leading space it returns the nested array \<open>[[1, 2]]\<close>.
\<close>

theorem parseEmbeddingString_returns_parsed_json_unchecked:
  "parseEmbeddingString pf (EmbArray vs) = JArr (map JNum vs)
   \<and> parseEmbeddingString pf (EmbNumber v) = JArr []
   \<and> (JSON_parse pf (ensureBrackets (cleanQuotes str)) = None \<longrightarrow>
        parseEmbeddingString pf (EmbString str) =
          JArr (map (\<lambda>tok. JNum (Number pf tok)) (numberMatches (ensureBrackets (cleanQuotes str)))))
   \<and> (JSON_parse pf (ensureBrackets (cleanQuotes str)) = Some parsed \<longrightarrow>
        parseEmbeddingString pf (EmbString str) = parsed)
   \<and> concat (map batch_points (posted (processPointStream pf point s)))
         @ pendingDataPoints (processPointStream pf point s)
       = concat (map batch_points (posted s)) @ pendingDataPoints s
           @ [makePromptPoint pf (loadedPointCount s) point]
   \<and> currEmbedding (makePromptPoint pf (loadedPointCount s) point)
       = parseEmbeddingString pf (rec_embedding point)"
proof (intro conjI impI)
  show "parseEmbeddingString pf (EmbArray vs) = JArr (map JNum vs)"
    by (rule parseEmbeddingString_array)
  show "parseEmbeddingString pf (EmbNumber v) = JArr []"
    by (simp add: parseEmbeddingString_def)
  show "parseEmbeddingString pf (EmbString str) =
          JArr (map (\<lambda>tok. JNum (Number pf tok)) (numberMatches (ensureBrackets (cleanQuotes str))))"
    if "JSON_parse pf (ensureBrackets (cleanQuotes str)) = None"
    using that by (rule parseEmbeddingString_fallback)
  show "parseEmbeddingString pf (EmbString str) = parsed"
    if "JSON_parse pf (ensureBrackets (cleanQuotes str)) = Some parsed"
    using that by (simp add: parseEmbeddingString_def Let_def)
  show "concat (map batch_points (posted (processPointStream pf point s)))
         @ pendingDataPoints (processPointStream pf point s)
       = concat (map batch_points (posted s)) @ pendingDataPoints s
           @ [makePromptPoint pf (loadedPointCount s) point]"
    by (rule processPointStream_appends)
  show "currEmbedding (makePromptPoint pf (loadedPointCount s) point)
       = parseEmbeddingString pf (rec_embedding point)"
    by (simp add: makePromptPoint_def Let_def)
qed

theorem parseEmbeddingString_returns_parsed_json_unchecked_witness:
  "JSON_parse sample_platform (ensureBrackets (cleanQuotes '' [1, 2]''))
     = Some (JArr [JArr [JNum 1, JNum 2]])
   \<and> parseEmbeddingString sample_platform (EmbString '' [1, 2]'') = JArr [JArr [JNum 1, JNum 2]]
   \<and> JSON_parse sample_platform (ensureBrackets (cleanQuotes ''3 , x -4.5'')) = None
   \<and> parseEmbeddingString sample_platform (EmbString ''3 , x -4.5'')
       = JArr [JNum 3, JNum (- 9 / 2)]"
proof -
  have c: "ensureBrackets (cleanQuotes '' [1, 2]'') = ''[ [1, 2]]''"
    by (simp add: ensureBrackets_def cleanQuotes_def stripQuoteSuffix_def startsWith_def
        endsWith_def dquote_def backslash_def)
  have p: "JSON_parse sample_platform (ensureBrackets (cleanQuotes '' [1, 2]''))
          = Some (JArr [JArr [JNum 1, JNum 2]])"
    by (simp add: c sample_platform_def)
  have e: "ensureBrackets (cleanQuotes ''3 , x -4.5'') = ''[3 , x -4.5]''"
    by (simp add: ensureBrackets_def cleanQuotes_def stripQuoteSuffix_def startsWith_def
        endsWith_def dquote_def backslash_def)
  have n: "JSON_parse sample_platform (ensureBrackets (cleanQuotes ''3 , x -4.5'')) = None"
    by (simp add: e sample_platform_def)
  have m: "numberMatches ''[3 , x -4.5]'' = [''3'', ''-4.5'']"
    by (simp add: matchNumberAt_def startsWith_def isDigit_def Let_def)
  have t: "map (\<lambda>tok. JNum (Number sample_platform tok)) [''3'', ''-4.5'']
             = [JNum 3, JNum (- 9 / 2)]"
    by (simp add: sample_platform_def)
  have A: "parseEmbeddingString sample_platform (EmbString '' [1, 2]'')
             = JArr [JArr [JNum 1, JNum 2]]"
    using p parseEmbeddingString_returns_parsed_json_unchecked
        [of sample_platform _ _ "'' [1, 2]''" "JArr [JArr [JNum 1, JNum 2]]"]
    by blast
  have "parseEmbeddingString sample_platform (EmbString ''3 , x -4.5'')
          = JArr (map (\<lambda>tok. JNum (Number sample_platform tok))
                   (numberMatches (ensureBrackets (cleanQuotes ''3 , x -4.5''))))"
    using n parseEmbeddingString_returns_parsed_json_unchecked
        [of sample_platform _ _ "''3 , x -4.5''"]
    by blast
  then have B: "parseEmbeddingString sample_platform (EmbString ''3 , x -4.5'')
                  = JArr [JNum 3, JNum (- 9 / 2)]"
    unfolding e m t .
  show ?thesis
    using p n A B by blast
qed

section \<open>Properties of the message handlers\<close>

text \<open>
  C9.  In each handler a message whose command has no case of its own reaches the
  \<open>default\<close> branch: the handler writes one line with the command to the console, returns
  (no exception leaves it) and leaves every variable as it was.  This holds for the loader
  worker, for the search worker and for the three handlers of the UI thread.
\<close>

theorem unknown_command_logged_and_ignored:
  "(\<not> loader_worker_recognizes m1 \<longrightarrow>
      loader_onmessage pf fetch m1 s
        = s\<lparr> console := console s @ [''Worker: unknown message '' @ loader_command m1] \<rparr>)
   \<and> (\<not> ui_recognizes_loader m1 \<longrightarrow>
      loaderWorkerMessageHandler env now m1 u
        = Returned (u\<lparr> ui_console := ui_console u @ [''Unknown message '' @ loader_command m1] \<rparr>))
   \<and> (\<not> search_worker_recognizes m2 \<longrightarrow>
      search_onmessage senv m2 w
        = Returned (w\<lparr> search_console := search_console w
                          @ [''Worker: unknown message '' @ search_command m2] \<rparr>))
   \<and> (\<not> ui_recognizes_search m2 \<longrightarrow>
      searchWorkerMessageHandler m2 u
        = u\<lparr> ui_console := ui_console u @ [''Unknown message '' @ search_command m2] \<rparr>)
   \<and> (\<not> ui_recognizes_tree m3 \<longrightarrow>
      treeWorkerMessageHandler env m3 u
        = u\<lparr> ui_console := ui_console u @ [''Unknown message '' @ tree_command m3] \<rparr>)"
proof (intro conjI impI)
  assume "\<not> loader_worker_recognizes m1"
  then show "loader_onmessage pf fetch m1 s
        = s\<lparr> console := console s @ [''Worker: unknown message '' @ loader_command m1] \<rparr>"
    by (cases m1) (simp_all add: loader_onmessage_def)
next
  assume "\<not> ui_recognizes_loader m1"
  then show "loaderWorkerMessageHandler env now m1 u
        = Returned (u\<lparr> ui_console := ui_console u @ [''Unknown message '' @ loader_command m1] \<rparr>)"
    by (cases m1) (simp_all add: loaderWorkerMessageHandler_def)
next
  assume "\<not> search_worker_recognizes m2"
  then show "search_onmessage senv m2 w
        = Returned (w\<lparr> search_console := search_console w
                          @ [''Worker: unknown message '' @ search_command m2] \<rparr>)"
    by (cases m2) (simp_all add: search_onmessage_def)
next
  assume "\<not> ui_recognizes_search m2"
  then show "searchWorkerMessageHandler m2 u
        = u\<lparr> ui_console := ui_console u @ [''Unknown message '' @ search_command m2] \<rparr>"
    by (cases m2) (simp_all add: searchWorkerMessageHandler_def)
next
  assume "\<not> ui_recognizes_tree m3"
  then show "treeWorkerMessageHandler env m3 u
        = u\<lparr> ui_console := ui_console u @ [''Unknown message '' @ tree_command m3] \<rparr>"
    by (cases m3) (simp_all add: treeWorkerMessageHandler_def)
qed

theorem unknown_command_logged_and_ignored_witness:
  "\<not> loader_worker_recognizes (LoaderOther ''ping'' :: rat LoaderWorkerMessage)
   \<and> loader_onmessage sample_platform (\<lambda>url. FetchRejected) (LoaderOther ''ping'') loader_init
       = loader_init\<lparr> console := [''Worker: unknown message ping''] \<rparr>
   \<and> \<not> ui_recognizes_loader (StartLoadData ''u'' :: real LoaderWorkerMessage)
   \<and> loaderWorkerMessageHandler sample_env 0 (StartLoadData ''u'') ui_init
       = Returned (ui_init\<lparr> ui_console := [''Unknown message startLoadData''] \<rparr>)
   \<and> \<not> search_worker_recognizes (FinishQuery [] :: real SearchWorkerMessage)
   \<and> search_onmessage sample_search_env (FinishQuery []) search_init
       = Returned (search_init\<lparr> search_console := [''Worker: unknown message finishQuery''] \<rparr>)
   \<and> \<not> ui_recognizes_search (SearchOther ''ping'' :: real SearchWorkerMessage)
   \<and> searchWorkerMessageHandler (SearchOther ''ping'') (ui_init :: real ui_state)
       = ui_init\<lparr> ui_console := [''Unknown message ping''] \<rparr>
   \<and> \<not> ui_recognizes_tree (TreeOther ''ping'' :: real TreeWorkerMessage)
   \<and> treeWorkerMessageHandler sample_env (TreeOther ''ping'') ui_init
       = ui_init\<lparr> ui_console := [''Unknown message ping''] \<rparr>"
  using unknown_command_logged_and_ignored
    [of "LoaderOther ''ping''" sample_platform "\<lambda>url. FetchRejected" loader_init]
    unknown_command_logged_and_ignored
    [of "StartLoadData ''u''" _ _ _ sample_env 0 ui_init "FinishQuery []" sample_search_env
        search_init]
    unknown_command_logged_and_ignored
    [of _ _ _ _ sample_env _ ui_init "SearchOther ''ping''" _ _ "TreeOther ''ping''"]
  by (simp add: loader_init_def ui_init_def search_init_def)

section \<open>Properties of the scatter plot\<close>

subsection \<open>Point width\<close>

lemma clamp_range: "0.4 \<le> max 0.4 (min 5 x) \<and> max 0.4 (min 5 x) \<le> (5::real)"
  by simp

lemma basePointWidth_range:
  "0.4 \<le> basePointWidth r h n \<and> basePointWidth r h n \<le> 5"
proof (cases "r * (h / 760) * real n = 0")
  case True
  then show ?thesis
    by (simp add: basePointWidth_def Let_def)
next
  case False
  then have "basePointWidth r h n
      = max 0.4 (min 5 (8.71682071 + (- 0.337974871) * ln (r * (h / 760) * real n)))"
    by (simp only: basePointWidth_def Let_def if_False)
  then show ?thesis
    using clamp_range by presburger
qed

lemma log2_bounds:
  "0 < log 2 (5 / 10 + 1 + 1 / 10 ^ 9)" "log 2 (5 / 10 + 1 + 1 / 10 ^ 9) < (1::real)"
  "log 2 (1 + 1 + 1 / 10 ^ 9) < (2::real)" "(5::real) < log 2 (40 + 1 + 1 / 10 ^ 9)"
proof -
  show "0 < log 2 (5 / 10 + 1 + 1 / 10 ^ 9 :: real)"
    by simp
  have "log 2 (5 / 10 + 1 + 1 / 10 ^ 9) < log 2 (2::real)"
    by (subst log_less_cancel_iff) simp_all
  then show "log 2 (5 / 10 + 1 + 1 / 10 ^ 9) < (1::real)"
    by simp
  have "log 2 (1 + 1 + 1 / 10 ^ 9) < log 2 (4::real)"
    by (subst log_less_cancel_iff) simp_all
  moreover have "log 2 (4::real) = 2"
    using log_nat_power[of 2 2 2] by simp
  ultimately show "log 2 (1 + 1 + 1 / 10 ^ 9) < (2::real)"
    by simp
  have "log 2 (32::real) < log 2 (40 + 1 + 1 / 10 ^ 9)"
    by (subst log_less_cancel_iff) simp_all
  moreover have "log 2 (32::real) = 5"
    using log_nat_power[of 2 2 5] by simp
  ultimately show "(5::real) < log 2 (40 + 1 + 1 / 10 ^ 9)"
    by simp
qed

text \<open>
  The interpolation of \<open>cappedPointWidth\<close> with the test for a tiny range decided: the
  range of the two logarithms is larger than \<open>epsilon\<close>.
\<close>

lemma cappedPointWidth_clamped:
  "cappedPointWidth k =
     11 - 8 * max 0 (min 1
       ((log 2 (k + 1 + 1 / 10 ^ 9) - log 2 (5 / 10 + 1 + 1 / 10 ^ 9))
        / (log 2 (40 + 1 + 1 / 10 ^ 9) - log 2 (5 / 10 + 1 + 1 / 10 ^ 9))))"
proof -
  define L :: real where "L = log 2 (5 / 10 + 1 + 1 / 10 ^ 9)"
  define A :: real where "A = log 2 (k + 1 + 1 / 10 ^ 9)"
  define B :: real where "B = log 2 (40 + 1 + 1 / 10 ^ 9)"
  define e :: real where "e = 1 / 10 ^ 9"
  have "L < 1" "5 < B" "e < 4"
    using log2_bounds by (simp_all add: L_def B_def e_def)
  then have r: "e < B - L"
    by linarith
  have m: "min (11 - (11 - 3) * max 0 (min 1 z)) 11 = 11 - 8 * max 0 (min 1 z)" for z :: real
    by (simp add: max_def min_def)
  have "cappedPointWidth k =
      min (11 - (11 - 3) * max 0 (min 1
        (if e < B - L then (A - L) / (B - L) else if B \<le> A then 1 else 0))) 11"
    unfolding cappedPointWidth_def Let_def L_def A_def B_def e_def ..
  also have "\<dots> = 11 - 8 * max 0 (min 1 ((A - L) / (B - L)))"
    using r by (simp only: m if_True)
  finally show ?thesis
    unfolding L_def A_def B_def .
qed

lemma cappedPointWidth_range:
  "3 \<le> cappedPointWidth k \<and> cappedPointWidth k \<le> 11"
proof -
  have "11 - 8 * max 0 (min 1 z) \<le> (11::real)" and "(3::real) \<le> 11 - 8 * max 0 (min 1 z)" for z :: real
    by (simp_all add: max_def min_def)
  then show ?thesis
    unfolding cappedPointWidth_clamped by blast
qed

lemma cappedPointWidth_identity_zoom: "7 < cappedPointWidth 1"
proof -
  define L :: real where "L = log 2 (5 / 10 + 1 + 1 / 10 ^ 9)"
  define A :: real where "A = log 2 (1 + 1 + 1 / 10 ^ 9)"
  define B :: real where "B = log 2 (40 + 1 + 1 / 10 ^ 9)"
  have b: "0 < L" "L < 1" "A < 2" "5 < B"
    using log2_bounds by (simp_all add: L_def A_def B_def)
  have "2 * (A - L) < B - L" and "0 < B - L"
    using b by simp_all
  then have "(A - L) / (B - L) < 1 / 2"
    by (simp add: field_simps)
  then have "7 < 11 - 8 * max 0 (min 1 ((A - L) / (B - L)))"
    by linarith
  then show ?thesis
    unfolding cappedPointWidth_clamped L_def A_def B_def .
qed

lemma cappedPointWidth_between:
  assumes "5 / 10 \<le> k" and "k \<le> 40"
  shows "cappedPointWidth k =
     11 - 8 * ((log 2 (k + 1 + 1 / 10 ^ 9) - log 2 (5 / 10 + 1 + 1 / 10 ^ 9))
               / (log 2 (40 + 1 + 1 / 10 ^ 9) - log 2 (5 / 10 + 1 + 1 / 10 ^ 9)))"
proof -
  define L :: real where "L = log 2 (5 / 10 + 1 + 1 / 10 ^ 9)"
  define A :: real where "A = log 2 (k + 1 + 1 / 10 ^ 9)"
  define B :: real where "B = log 2 (40 + 1 + 1 / 10 ^ 9)"
  have b: "L < 1" "5 < B"
    using log2_bounds by (simp_all add: L_def B_def)
  have "L \<le> A" "A \<le> B"
    unfolding L_def A_def B_def using assms by (simp_all add: log_le_cancel_iff)
  moreover have "0 < B - L"
    using b by simp
  ultimately have "0 \<le> (A - L) / (B - L)" "(A - L) / (B - L) \<le> 1"
    by simp_all
  then have "max 0 (min 1 ((A - L) / (B - L))) = (A - L) / (B - L)"
    by simp
  then show ?thesis
    unfolding cappedPointWidth_clamped L_def A_def B_def by simp
qed

lemma cappedPointWidth_zoomed_out:
  assumes "0 < k" and "k \<le> 5 / 10"
  shows "cappedPointWidth k = 11"
proof -
  define L :: real where "L = log 2 (5 / 10 + 1 + 1 / 10 ^ 9)"
  define A :: real where "A = log 2 (k + 1 + 1 / 10 ^ 9)"
  define B :: real where "B = log 2 (40 + 1 + 1 / 10 ^ 9)"
  have b: "L < 1" "5 < B"
    using log2_bounds by (simp_all add: L_def B_def)
  have "A \<le> L"
    unfolding L_def A_def using assms by (simp add: log_le_cancel_iff)
  moreover have "0 < B - L"
    using b by simp
  ultimately have "(A - L) / (B - L) \<le> 0"
    by (simp add: divide_le_0_iff)
  then have "max 0 (min 1 ((A - L) / (B - L))) = 0"
    by simp
  then show ?thesis
    unfolding cappedPointWidth_clamped L_def A_def B_def by simp
qed

lemma cappedPointWidth_zoomed_in:
  assumes "40 \<le> k"
  shows "cappedPointWidth k = 3"
proof -
  define L :: real where "L = log 2 (5 / 10 + 1 + 1 / 10 ^ 9)"
  define A :: real where "A = log 2 (k + 1 + 1 / 10 ^ 9)"
  define B :: real where "B = log 2 (40 + 1 + 1 / 10 ^ 9)"
  have b: "L < 1" "5 < B"
    using log2_bounds by (simp_all add: L_def B_def)
  have "B \<le> A"
    unfolding B_def A_def using assms by (simp add: log_le_cancel_iff)
  moreover have "0 < B - L"
    using b by simp
  ultimately have "1 \<le> (A - L) / (B - L)"
    by simp
  then have "max 0 (min 1 ((A - L) / (B - L))) = 1"
    by simp
  then show ?thesis
    unfolding cappedPointWidth_clamped L_def A_def B_def by simp
qed

lemma ln_million: "11 < ln (1000000::real)" "ln (1000000::real) < 24"
proof -
  have "exp (11::real) = exp 1 ^ 11"
    using exp_of_nat_mult[of 11 "1::real"] by simp
  also have "\<dots> \<le> 3 ^ 11"
    by (rule power_mono) (simp_all add: exp_le)
  also have "\<dots> < (1000000::real)"
    by simp
  finally have "exp (11::real) < 1000000" .
  then have "ln (exp (11::real)) < ln 1000000"
    by (subst ln_less_cancel_iff) simp_all
  then show "11 < ln (1000000::real)"
    by simp
  have "(2::real) \<le> exp 1"
    using exp_ge_add_one_self[of "1::real"] by simp
  then have "(2::real) ^ 24 \<le> exp 1 ^ 24"
    by (rule power_mono) simp
  also have "\<dots> = exp (24::real)"
    using exp_of_nat_mult[of 24 "1::real"] by simp
  finally have "(1000000::real) < exp 24"
    by simp
  then have "ln (1000000::real) < ln (exp 24)"
    by (subst ln_less_cancel_iff) simp_all
  then show "ln (1000000::real) < 24"
    by simp
qed

lemma basePointWidth_million:
  "0.4 < basePointWidth 1 760 1000000" "basePointWidth 1 760 1000000 < 5"
  using ln_million by (simp_all add: basePointWidth_def Let_def)

lemma drawScatterPlot_width:
  "curPointWidth (drawScatterPlot env now isPanningOnly s) =
     (if drawPasses now isPanningOnly s
      then basePointWidth (scatterDotRadius env) (svgHeight s) (drawnPointCount s)
      else curPointWidth s)"
  by (auto simp: drawScatterPlot_def drawPasses_def)

text \<open>The \<open>Image\<close> objects that a draw creates carry the size \<open>cappedPointWidth * 2\<close>.\<close>

lemma drawScatterPlot_images:
  "images (drawScatterPlot env now isPanningOnly s) =
     images s @ (if drawPasses now isPanningOnly s
                 then enterRequests env s @ concat (map snd (imageUpdates env s)) else [])"
  by (auto simp: drawScatterPlot_def drawPasses_def)

lemma enterRequests_size: "r \<in> set (enterRequests env s) \<Longrightarrow> img_size r = imageSize s"
  by (auto simp: enterRequests_def enterImages_def)

lemma imageUpdates_size:
  "r \<in> set (concat (map snd (imageUpdates env s))) \<Longrightarrow> img_size r = imageSize s"
  by (auto simp: imageUpdates_def updateImage_def split: option.splits)

subsection \<open>Image decodes\<close>

lemma decodes_append: "decodes (a @ b) u = decodes a u + decodes b u"
  by (simp add: decodes_def)

lemma decodes_Cons: "decodes (e # es) u = (if e = NewImage u then 1 else 0) + decodes es u"
  by (simp add: decodes_def)

lemma decodes_Nil: "decodes [] u = 0"
  by (simp add: decodes_def)

lemma decodes_enter:
  "decodes (map (\<lambda>r. NewImage (img_src r)) (enterImages sz merged)) u
     = length (filter (\<lambda>e. el_href e = u) (map fst (filter snd merged)))"
  by (induction merged) (auto simp: decodes_Cons decodes_Nil enterImages_def)

lemma fst_updateImage:
  "fst (updateImage cache sz e) =
     (case cache (el_href e) of Some r \<Rightarrow> ApplyAspectRatio (el_node e) r sz
      | None \<Rightarrow> NewImage (el_href e))"
  by (simp add: updateImage_def split: option.splits)

lemma decodes_updates:
  "decodes (map fst (map (updateImage cache sz) es)) u
     = (if cache u = None then length (filter (\<lambda>e. el_href e = u) es) else 0)"
proof (induction es)
  case Nil
  then show ?case by (simp add: decodes_Nil)
next
  case (Cons a es)
  show ?case
  proof (cases "cache (el_href a)")
    case None
    then show ?thesis
      using Cons by (auto simp: decodes_Cons fst_updateImage)
  next
    case (Some r)
    then show ?thesis
      using Cons by (auto simp: decodes_Cons fst_updateImage)
  qed
qed

lemma drawScatterPlot_trace:
  "trace (drawScatterPlot env now isPanningOnly s) =
     (if drawPasses now isPanningOnly s
      then trace s
        @ (if isPanningOnly then [] else [ReglClear])
        @ map (\<lambda>r. NewImage (img_src r)) (enterRequests env s)
        @ [SetPointTransforms (mergedTransforms env s)]
        @ map fst (imageUpdates env s)
      else trace s)"
  by (auto simp: drawScatterPlot_def drawPasses_def)

lemma drawScatterPlot_elements:
  "elements (drawScatterPlot env now isPanningOnly s) =
     (if drawPasses now isPanningOnly s then map fst (mergedNodes env s) else elements s)"
  by (auto simp: drawScatterPlot_def drawPasses_def)

lemma drawScatterPlot_cache:
  "imageAspectRatioCache (drawScatterPlot env now isPanningOnly s) = imageAspectRatioCache s"
  by (auto simp: drawScatterPlot_def)

lemma decodes_enterRequests:
  "decodes (map (\<lambda>r. NewImage (img_src r)) (enterRequests env s)) u
     = length (filter (\<lambda>e. el_href e = u) (enteringNodes env s))"
  unfolding enterRequests_def enteringNodes_def by (rule decodes_enter)

lemma decodes_imageUpdates:
  "decodes (map fst (imageUpdates env s)) u
     = (if imageAspectRatioCache s u = None
        then length (filter (\<lambda>e. el_href e = u) (map fst (mergedNodes env s))) else 0)"
  unfolding imageUpdates_def by (rule decodes_updates)

text \<open>The decodes of a URL that one call of \<open>drawScatterPlot\<close> starts.\<close>

lemma drawScatterPlot_decodes:
  "decodes (trace (drawScatterPlot env now isPanningOnly s)) u =
     decodes (trace s) u +
     (if drawPasses now isPanningOnly s
      then length (filter (\<lambda>e. el_href e = u) (enteringNodes env s))
           + (if imageAspectRatioCache s u = None
              then length (filter (\<lambda>e. el_href e = u) (map fst (mergedNodes env s)))
              else 0)
      else 0)"
proof (cases "drawPasses now isPanningOnly s")
  case True
  then show ?thesis
    by (cases isPanningOnly)
      (simp_all only: drawScatterPlot_trace decodes_append decodes_Cons decodes_Nil
        decodes_enterRequests decodes_imageUpdates if_True if_False append_Nil
        ui_effect.distinct add_0 add_0_right add.assoc)
next
  case False
  then show ?thesis
    by (simp add: drawScatterPlot_trace)
qed

lemmas sample_defs = one_point_page_def ui_ready_def ui_init_def sample_env_def sample_point_def

lemma one_point_merged:
  "mergedNodes sample_env one_point_page = [(\<lparr> el_node = 0, el_id = 0, el_href = ''a.jpg'' \<rparr>, True)]"
  by (simp add: mergedNodes_def sample_defs hrefOf_def)

lemma first_draw_passes: "drawPasses 100 False one_point_page"
  by (simp add: drawPasses_def sample_defs DRAW_THROTTLE_def)

lemma first_draw_decodes: "decodes (trace after_first_draw) ''a.jpg'' = 2"
  unfolding after_first_draw_def
  by (simp add: drawScatterPlot_decodes first_draw_passes enteringNodes_def one_point_merged)
    (simp add: sample_defs decodes_def)

lemma first_draw_images:
  "images after_first_draw =
     [\<lparr> img_src = ''a.jpg'', img_node = 0, img_size = imageSize one_point_page, img_caches = False \<rparr>,
      \<lparr> img_src = ''a.jpg'', img_node = 0, img_size = imageSize one_point_page, img_caches = True \<rparr>]"
  using first_draw_passes
  by (simp add: after_first_draw_def drawScatterPlot_def drawPasses_def enterRequests_def
      imageUpdates_def one_point_merged enterImages_def updateImage_def)
    (simp add: sample_defs)

lemma first_draw_elements:
  "elements after_first_draw = [\<lparr> el_node = 0, el_id = 0, el_href = ''a.jpg'' \<rparr>]"
  using first_draw_passes
  by (simp add: after_first_draw_def drawScatterPlot_elements one_point_merged)

lemma first_draw_fields:
  "promptPoints after_first_draw = [sample_point 0 0 0]"
  "nextNode after_first_draw = 1"
  "imageAspectRatioCache after_first_draw = Map.empty"
  "lastDrawTime after_first_draw = 100"
  "webGLMatrices after_first_draw" "frontPositionBuffer after_first_draw"
  "frontTextureCoordinateBuffer after_first_draw"
  using first_draw_passes
  by (simp_all add: after_first_draw_def drawScatterPlot_def drawPasses_def enterRequests_def
      one_point_merged enterImages_def)
    (simp_all add: sample_defs)

lemma after_loads_fields:
  "promptPoints after_loads = [sample_point 0 0 0]"
  "elements after_loads = [\<lparr> el_node = 0, el_id = 0, el_href = ''a.jpg'' \<rparr>]"
  "nextNode after_loads = 1"
  "imageAspectRatioCache after_loads ''a.jpg'' = Some 1"
  "lastDrawTime after_loads = 100"
  "webGLMatrices after_loads" "frontPositionBuffer after_loads"
  "frontTextureCoordinateBuffer after_loads"
  "decodes (trace after_loads) ''a.jpg'' = 2"
  by (simp_all add: after_loads_def imageLoaded_def first_draw_images first_draw_fields
      first_draw_elements first_draw_decodes decodes_append decodes_Cons decodes_Nil Let_def)

lemma after_loads_merged:
  "mergedNodes sample_env after_loads = [(\<lparr> el_node = 0, el_id = 0, el_href = ''a.jpg'' \<rparr>, False)]"
  by (simp add: mergedNodes_def after_loads_fields sample_point_def)

lemma second_draw_passes: "drawPasses 200 False after_loads"
  by (simp add: drawPasses_def after_loads_fields DRAW_THROTTLE_def)

lemma second_draw_decodes: "decodes (trace after_second_draw) ''a.jpg'' = 2"
  unfolding after_second_draw_def
  by (simp add: drawScatterPlot_decodes enteringNodes_def after_loads_merged after_loads_fields)

lemma drawScatterPlot_added:
  "added s (drawScatterPlot env now isPanningOnly s) =
     (if drawPasses now isPanningOnly s
      then (if isPanningOnly then [] else [ReglClear])
        @ map (\<lambda>r. NewImage (img_src r)) (enterRequests env s)
        @ [SetPointTransforms (mergedTransforms env s)]
        @ map fst (imageUpdates env s)
      else [])"
  by (simp add: added_def drawScatterPlot_trace)

lemma drawScatterPlot_trace_added:
  "trace (drawScatterPlot env now isPanningOnly s)
     = trace s @ added s (drawScatterPlot env now isPanningOnly s)"
  by (simp add: added_def drawScatterPlot_trace)

lemma entering_are_merged: "set (enteringNodes env s) \<subseteq> set (map fst (mergedNodes env s))"
  by (auto simp: enteringNodes_def)

lemma enterRequests_never_cache: "r \<in> set (enterRequests env s) \<Longrightarrow> \<not> img_caches r"
  by (auto simp: enterRequests_def enterImages_def)

lemma filter_member_length: "e \<in> set es \<Longrightarrow> P e \<Longrightarrow> 1 \<le> length (filter P es)"
  by (induction es) auto

text \<open>
  The page once a later batch has brought a second point with the same picture: the
  ratio of the picture is in the cache, and the node of the second point enters.
\<close>

lemma shared_picture_fields:
  "imageAspectRatioCache shared_picture_page ''a.jpg'' = Some 1"
  "drawPasses 200 False shared_picture_page"
  "mergedNodes sample_env shared_picture_page =
     [(\<lparr> el_node = 0, el_id = 0, el_href = ''a.jpg'' \<rparr>, False),
      (\<lparr> el_node = 1, el_id = 1, el_href = ''a.jpg'' \<rparr>, True)]"
  by (simp_all add: shared_picture_page_def after_loads_fields drawPasses_def DRAW_THROTTLE_def
      mergedNodes_def sample_point_def hrefOf_def)

text \<open>
  C6.  The claim fails on the code, which misses what its own comments say (the cache is
  there ``to avoid creating new Image() on every zoom'', and an image is to be loaded
  ``once'').  A call of \<open>drawScatterPlot\<close> that draws creates, for a URL, one \<open>Image\<close> for
  every entering node that shows it, whether the ratio of the URL is in the cache or not,
  and, while the ratio is not in the cache, one more for every node of the merged
  selection that shows it; the entering nodes belong to the merged selection, and the
  \<open>Image\<close> objects of the entering nodes never store a ratio.  So the first draw of a
  point decodes its URL twice, and a point that enters with a picture whose ratio is
  cached has the picture decoded again.
\<close>

theorem entering_image_decoded_outside_cache:
  "(drawPasses now isPanningOnly s \<longrightarrow>
      decodes (added s (drawScatterPlot env now isPanningOnly s)) u =
        length (filter (\<lambda>e. el_href e = u) (enteringNodes env s))
        + (if imageAspectRatioCache s u = None
           then length (filter (\<lambda>e. el_href e = u) (map fst (mergedNodes env s)))
           else 0))
   \<and> (\<not> drawPasses now isPanningOnly s \<longrightarrow>
        decodes (added s (drawScatterPlot env now isPanningOnly s)) u = 0)
   \<and> set (enteringNodes env s) \<subseteq> set (map fst (mergedNodes env s))
   \<and> (drawPasses now isPanningOnly s \<and> e \<in> set (enteringNodes env s) \<longrightarrow>
        1 \<le> decodes (added s (drawScatterPlot env now isPanningOnly s)) (el_href e)
        \<and> (imageAspectRatioCache s (el_href e) = None \<longrightarrow>
             2 \<le> decodes (added s (drawScatterPlot env now isPanningOnly s)) (el_href e)))
   \<and> (\<forall>r \<in> set (enterRequests env s). \<not> img_caches r)
   \<and> imageAspectRatioCache (drawScatterPlot env now isPanningOnly s) = imageAspectRatioCache s"
proof -
  let ?s' = "drawScatterPlot env now isPanningOnly s"
  have split: "decodes (trace ?s') v = decodes (trace s) v + decodes (added s ?s') v" for v
    using drawScatterPlot_trace_added[of env now isPanningOnly s]
    by (metis decodes_append)
  have count: "decodes (added s ?s') v =
        length (filter (\<lambda>e. el_href e = v) (enteringNodes env s))
        + (if imageAspectRatioCache s v = None
           then length (filter (\<lambda>e. el_href e = v) (map fst (mergedNodes env s)))
           else 0)"
    if "drawPasses now isPanningOnly s" for v
    using that split[of v] drawScatterPlot_decodes[of env now isPanningOnly s v] by simp
  have none: "decodes (added s ?s') u = 0" if "\<not> drawPasses now isPanningOnly s"
    using that by (simp add: drawScatterPlot_added decodes_Nil)
  have twice: "1 \<le> decodes (added s ?s') (el_href e)
        \<and> (imageAspectRatioCache s (el_href e) = None \<longrightarrow> 2 \<le> decodes (added s ?s') (el_href e))"
    if p: "drawPasses now isPanningOnly s" and e: "e \<in> set (enteringNodes env s)"
  proof -
    have a: "1 \<le> length (filter (\<lambda>e'. el_href e' = el_href e) (enteringNodes env s))"
      using e by (rule filter_member_length) simp
    have "e \<in> set (map fst (mergedNodes env s))"
      using e entering_are_merged by blast
    then have b: "1 \<le> length (filter (\<lambda>e'. el_href e' = el_href e) (map fst (mergedNodes env s)))"
      by (rule filter_member_length) simp
    show ?thesis
      using a b count[OF p, of "el_href e"] by simp
  qed
  show ?thesis
    using count[of u] none twice entering_are_merged[of env s] enterRequests_never_cache
      drawScatterPlot_cache[of env now isPanningOnly s]
    by blast
qed

theorem entering_image_decoded_outside_cache_witness:
  "drawPasses 100 False one_point_page
   \<and> imageAspectRatioCache one_point_page ''a.jpg'' = None
   \<and> decodes (added one_point_page after_first_draw) ''a.jpg'' = 2
   \<and> imageAspectRatioCache after_loads ''a.jpg'' = Some 1
   \<and> decodes (trace after_second_draw) ''a.jpg'' = 2
   \<and> drawPasses 200 False shared_picture_page
   \<and> imageAspectRatioCache shared_picture_page ''a.jpg'' = Some 1
   \<and> decodes (added shared_picture_page (drawScatterPlot sample_env 200 False shared_picture_page))
        ''a.jpg'' = 1"
proof -
  have c: "imageAspectRatioCache one_point_page ''a.jpg'' = None"
    by (simp add: sample_defs)
  have "decodes (added one_point_page (drawScatterPlot sample_env 100 False one_point_page)) ''a.jpg''
      = length (filter (\<lambda>e. el_href e = ''a.jpg'') (enteringNodes sample_env one_point_page))
        + (if imageAspectRatioCache one_point_page ''a.jpg'' = None
           then length (filter (\<lambda>e. el_href e = ''a.jpg'')
                  (map fst (mergedNodes sample_env one_point_page)))
           else 0)"
    using first_draw_passes
      entering_image_decoded_outside_cache
        [where s = one_point_page and env = sample_env and now = 100 and isPanningOnly = False
           and u = "''a.jpg''"]
    by blast
  then have a: "decodes (added one_point_page after_first_draw) ''a.jpg'' = 2"
    by (simp add: after_first_draw_def c enteringNodes_def one_point_merged)
  have "decodes (added shared_picture_page (drawScatterPlot sample_env 200 False shared_picture_page))
          ''a.jpg''
      = length (filter (\<lambda>e. el_href e = ''a.jpg'') (enteringNodes sample_env shared_picture_page))
        + (if imageAspectRatioCache shared_picture_page ''a.jpg'' = None
           then length (filter (\<lambda>e. el_href e = ''a.jpg'')
                  (map fst (mergedNodes sample_env shared_picture_page)))
           else 0)"
    using shared_picture_fields(2)
      entering_image_decoded_outside_cache
        [where s = shared_picture_page and env = sample_env and now = 200
           and isPanningOnly = False and u = "''a.jpg''"]
    by blast
  then have b: "decodes (added shared_picture_page
                  (drawScatterPlot sample_env 200 False shared_picture_page)) ''a.jpg'' = 1"
    by (simp add: enteringNodes_def shared_picture_fields)
  show ?thesis
    using first_draw_passes c a after_loads_fields(4) second_draw_decodes
      shared_picture_fields(1,2) b
    by blast
qed

subsection \<open>The two widths of a draw\<close>

lemma imageUpdates_effects:
  "ApplyAspectRatio n ratio sz \<in> set (map fst (imageUpdates env s)) \<Longrightarrow> sz = imageSize s"
  by (auto simp: imageUpdates_def updateImage_def split: option.splits)

lemma drawScatterPlot_applied_size:
  assumes "ApplyAspectRatio n ratio sz \<in> set (added s (drawScatterPlot env now isPanningOnly s))"
  shows "sz = imageSize s"
proof (cases "drawPasses now isPanningOnly s")
  case True
  then have "ApplyAspectRatio n ratio sz \<in> set (map fst (imageUpdates env s))"
    using assms by (cases isPanningOnly) (auto simp: drawScatterPlot_added)
  then show ?thesis
    by (rule imageUpdates_effects)
next
  case False
  then show ?thesis
    using assms by (simp add: drawScatterPlot_added)
qed

lemma drawScatterPlot_new_images:
  assumes "r \<in> set (drop (length (images s)) (images (drawScatterPlot env now isPanningOnly s)))"
  shows "img_size r = imageSize s"
  using assms enterRequests_size[of r env s] imageUpdates_size[of r env s]
  by (auto simp: drawScatterPlot_images split: if_splits)

lemma zoomed_in_fields:
  "drawPasses 100 False zoomed_in_page"
  "zoom_k zoomed_in_page = 40"
  "svgHeight zoomed_in_page = 760" "drawnPointCount zoomed_in_page = 1"
  "images zoomed_in_page = []"
  "mergedNodes sample_env zoomed_in_page = [(\<lparr> el_node = 0, el_id = 0, el_href = ''a.jpg'' \<rparr>, True)]"
  "imageAspectRatioCache zoomed_in_page = Map.empty"
  by (simp_all add: zoomed_in_page_def drawPasses_def DRAW_THROTTLE_def drawnPointCount_def
      mergedNodes_def sample_defs hrefOf_def)

lemma one_point_fields:
  "zoom_k one_point_page = 1" "svgHeight one_point_page = 760"
  "drawnPointCount one_point_page = 1" "images one_point_page = []"
  by (simp_all add: drawnPointCount_def sample_defs)

text \<open>
  C8, as stated, fails for the radius of the drawn marks.  The page with one point is
  drawn once at the zoom scale 1 and once at the zoom scale 40, with the same point count
  and the same height: both draws set \<open>curPointWidth\<close> to 5, but the images are sized at
  twice a radius above 7 in the first draw and at twice the radius 3 in the second.  The
  radius given to the marks is outside the range from 0.4 to 5 of the base point width,
  and it is not a function of the point count and the height.
\<close>

theorem mark_radius_outside_base_range_counterexample:
  "drawPasses 100 False one_point_page
   \<and> drawnPointCount one_point_page = drawnPointCount zoomed_in_page
   \<and> svgHeight one_point_page = svgHeight zoomed_in_page
   \<and> curPointWidth (drawScatterPlot sample_env 100 False one_point_page) = 5
   \<and> map img_size (images (drawScatterPlot sample_env 100 False one_point_page))
       = [2 * cappedPointWidth 1, 2 * cappedPointWidth 1]
   \<and> 7 < cappedPointWidth 1
   \<and> drawPasses 100 False zoomed_in_page
   \<and> curPointWidth (drawScatterPlot sample_env 100 False zoomed_in_page) = 5
   \<and> map img_size (images (drawScatterPlot sample_env 100 False zoomed_in_page)) = [6, 6]"
proof -
  have w: "basePointWidth 1 760 1 = 5"
    by (simp add: basePointWidth_def Let_def)
  have a: "curPointWidth (drawScatterPlot sample_env 100 False one_point_page) = 5"
    using first_draw_passes w
    by (simp add: drawScatterPlot_width one_point_fields) (simp add: sample_env_def)
  have b: "curPointWidth (drawScatterPlot sample_env 100 False zoomed_in_page) = 5"
    using zoomed_in_fields(1) w
    by (simp add: drawScatterPlot_width zoomed_in_fields) (simp add: sample_env_def)
  have i: "map img_size (images (drawScatterPlot sample_env 100 False one_point_page))
             = [2 * cappedPointWidth 1, 2 * cappedPointWidth 1]"
    using first_draw_images
    by (simp add: after_first_draw_def imageSize_def one_point_fields)
  have "cappedPointWidth 40 = 3"
    by (rule cappedPointWidth_zoomed_in) simp
  then have j: "map img_size (images (drawScatterPlot sample_env 100 False zoomed_in_page)) = [6, 6]"
    using zoomed_in_fields(1)
    by (simp add: drawScatterPlot_images zoomed_in_fields enterRequests_def enterImages_def
        imageUpdates_def updateImage_def imageSize_def)
  show ?thesis
    using first_draw_passes zoomed_in_fields(1) a b i j cappedPointWidth_identity_zoom
    by (simp add: one_point_fields zoomed_in_fields)
qed

text \<open>
  C8, amended.  A call of \<open>drawScatterPlot\<close> that draws computes two widths.  The base
  point width \<open>curPointWidth\<close> is \<open>a + b ln(dotRadius (height / 760) pointCount)\<close> clamped
  to the range from 0.4 to 5 (it is 5 when the product is 0); it lies in this range for
  every point count and every height.  The radius of the drawn marks is a second
  quantity, interpolated from the logarithm of the zoom scale alone and clamped to the
  range from 3 to 11: it is 11 up to the zoom scale 0.5, 3 from the zoom scale 40 on, and
  every image that the draw sizes is sized at twice this radius.  A call that is cut short
  leaves \<open>curPointWidth\<close> as it was.  (The height and the dot radius are not negative
  and the zoom scale is positive, as on a page; otherwise a logarithm of the source is
  \<open>NaN\<close>.)
\<close>

theorem base_width_and_mark_radius_have_separate_ranges:
  assumes "0 \<le> svgHeight s" and "0 \<le> scatterDotRadius env" and "0 < zoom_k s"
  shows "(drawPasses now isPanningOnly s \<longrightarrow>
            curPointWidth (drawScatterPlot env now isPanningOnly s)
              = (if scatterDotRadius env * (svgHeight s / 760) * real (drawnPointCount s) = 0
                 then 5
                 else max 0.4 (min 5 (8.71682071 + (- 0.337974871)
                        * ln (scatterDotRadius env * (svgHeight s / 760)
                                * real (drawnPointCount s)))))
            \<and> (\<forall>r \<in> set (drop (length (images s))
                             (images (drawScatterPlot env now isPanningOnly s))).
                  img_size r = 2 * cappedPointWidth (zoom_k s))
            \<and> (\<forall>n ratio sz.
                  ApplyAspectRatio n ratio sz
                    \<in> set (added s (drawScatterPlot env now isPanningOnly s))
                  \<longrightarrow> sz = 2 * cappedPointWidth (zoom_k s)))
         \<and> (\<not> drawPasses now isPanningOnly s \<longrightarrow>
            curPointWidth (drawScatterPlot env now isPanningOnly s) = curPointWidth s)
         \<and> 0.4 \<le> basePointWidth (scatterDotRadius env) (svgHeight s) n
         \<and> basePointWidth (scatterDotRadius env) (svgHeight s) n \<le> 5
         \<and> 3 \<le> cappedPointWidth (zoom_k s) \<and> cappedPointWidth (zoom_k s) \<le> 11
         \<and> (zoom_k s \<le> 5 / 10 \<longrightarrow> cappedPointWidth (zoom_k s) = 11)
         \<and> (40 \<le> zoom_k s \<longrightarrow> cappedPointWidth (zoom_k s) = 3)
         \<and> (5 / 10 \<le> zoom_k s \<and> zoom_k s \<le> 40 \<longrightarrow>
              cappedPointWidth (zoom_k s) =
                11 - 8 * ((log 2 (zoom_k s + 1 + 1 / 10 ^ 9) - log 2 (5 / 10 + 1 + 1 / 10 ^ 9))
                          / (log 2 (40 + 1 + 1 / 10 ^ 9) - log 2 (5 / 10 + 1 + 1 / 10 ^ 9))))"
proof (intro conjI impI ballI allI)
  assume p: "drawPasses now isPanningOnly s"
  show "curPointWidth (drawScatterPlot env now isPanningOnly s)
          = (if scatterDotRadius env * (svgHeight s / 760) * real (drawnPointCount s) = 0
             then 5
             else max 0.4 (min 5 (8.71682071 + (- 0.337974871)
                    * ln (scatterDotRadius env * (svgHeight s / 760)
                            * real (drawnPointCount s)))))"
    using p by (simp only: drawScatterPlot_width basePointWidth_def Let_def if_True)
  show "img_size r = 2 * cappedPointWidth (zoom_k s)"
    if "r \<in> set (drop (length (images s)) (images (drawScatterPlot env now isPanningOnly s)))"
    for r
    using drawScatterPlot_new_images[OF that] by (simp add: imageSize_def)
  show "sz = 2 * cappedPointWidth (zoom_k s)"
    if "ApplyAspectRatio n ratio sz \<in> set (added s (drawScatterPlot env now isPanningOnly s))"
    for n ratio sz
    using drawScatterPlot_applied_size[OF that] by (simp add: imageSize_def)
next
  assume "\<not> drawPasses now isPanningOnly s"
  then show "curPointWidth (drawScatterPlot env now isPanningOnly s) = curPointWidth s"
    by (simp add: drawScatterPlot_width)
next
  show "0.4 \<le> basePointWidth (scatterDotRadius env) (svgHeight s) n"
    and "basePointWidth (scatterDotRadius env) (svgHeight s) n \<le> 5"
    using basePointWidth_range by blast+
  show "3 \<le> cappedPointWidth (zoom_k s)" and "cappedPointWidth (zoom_k s) \<le> 11"
    using cappedPointWidth_range by blast+
next
  assume "zoom_k s \<le> 5 / 10"
  with assms(3) show "cappedPointWidth (zoom_k s) = 11"
    by (rule cappedPointWidth_zoomed_out)
next
  assume "40 \<le> zoom_k s"
  then show "cappedPointWidth (zoom_k s) = 3"
    by (rule cappedPointWidth_zoomed_in)
next
  assume "5 / 10 \<le> zoom_k s \<and> zoom_k s \<le> 40"
  then show "cappedPointWidth (zoom_k s) =
      11 - 8 * ((log 2 (zoom_k s + 1 + 1 / 10 ^ 9) - log 2 (5 / 10 + 1 + 1 / 10 ^ 9))
                / (log 2 (40 + 1 + 1 / 10 ^ 9) - log 2 (5 / 10 + 1 + 1 / 10 ^ 9)))"
    using cappedPointWidth_between by blast
qed

theorem base_width_and_mark_radius_have_separate_ranges_witness:
  "0 \<le> svgHeight one_point_page \<and> 0 \<le> scatterDotRadius sample_env \<and> 0 < zoom_k one_point_page
   \<and> drawPasses 100 False one_point_page
   \<and> scatterDotRadius sample_env * (svgHeight one_point_page / 760)
        * real (drawnPointCount one_point_page) = 1
   \<and> curPointWidth (drawScatterPlot sample_env 100 False one_point_page) = 5
   \<and> list_all (\<lambda>r. img_size r = 2 * cappedPointWidth 1)
        (images (drawScatterPlot sample_env 100 False one_point_page))
   \<and> 0.4 < basePointWidth 1 760 1000000 \<and> basePointWidth 1 760 1000000 < 5
   \<and> 7 < cappedPointWidth 1 \<and> cappedPointWidth 1 \<le> 11
   \<and> \<not> drawPasses 10 False one_point_page
   \<and> curPointWidth (drawScatterPlot sample_env 10 False one_point_page) = 1"
proof -
  have h: "0 \<le> svgHeight one_point_page" "0 \<le> scatterDotRadius sample_env"
    "0 < zoom_k one_point_page"
    by (simp_all add: one_point_fields sample_env_def)
  have q: "\<not> drawPasses 10 False one_point_page"
    and w: "curPointWidth one_point_page = 1"
    by (simp_all add: drawPasses_def DRAW_THROTTLE_def sample_defs)
  have v: "scatterDotRadius sample_env * (svgHeight one_point_page / 760)
              * real (drawnPointCount one_point_page) = 1"
    by (simp add: one_point_fields sample_env_def)
  note t = base_width_and_mark_radius_have_separate_ranges
    [OF h, where now = 100 and isPanningOnly = False and n = 1000000]
  have a: "curPointWidth (drawScatterPlot sample_env 100 False one_point_page) = 5"
    using t first_draw_passes unfolding v by simp
  have "\<forall>r \<in> set (drop (length (images one_point_page))
                    (images (drawScatterPlot sample_env 100 False one_point_page))).
          img_size r = 2 * cappedPointWidth (zoom_k one_point_page)"
    using t first_draw_passes by blast
  then have b: "list_all (\<lambda>r. img_size r = 2 * cappedPointWidth 1)
                  (images (drawScatterPlot sample_env 100 False one_point_page))"
    by (simp add: one_point_fields list_all_iff)
  have c: "cappedPointWidth 1 \<le> 11"
    using t by (simp add: one_point_fields)
  have d: "curPointWidth (drawScatterPlot sample_env 10 False one_point_page) = 1"
    using q w
      base_width_and_mark_radius_have_separate_ranges
        [OF h, where now = 10 and isPanningOnly = False]
    by simp
  show ?thesis
    using h first_draw_passes v a b basePointWidth_million cappedPointWidth_identity_zoom c q d
    by blast
qed

section \<open>Properties of the dispersal animation\<close>

subsection \<open>Snapshots\<close>

lemma capturePositions_snoc:
  "capturePositions (ps @ [q]) = (capturePositions ps)(pt_id q \<mapsto> position_of q)"
  by (simp add: capturePositions_def)

lemma capturePositions_distinct:
  "distinct (map pt_id ps) \<Longrightarrow> p \<in> set ps \<Longrightarrow> capturePositions ps (pt_id p) = Some (position_of p)"
proof (induction ps rule: rev_induct)
  case Nil
  then show ?case by simp
next
  case (snoc q ps)
  show ?case
  proof (cases "p = q")
    case True
    then show ?thesis by (simp add: capturePositions_snoc)
  next
    case False
    then have "p \<in> set ps"
      using snoc.prems(2) by simp
    moreover have "pt_id p \<noteq> pt_id q"
      using snoc.prems(1) calculation by (auto simp: image_iff)
    ultimately show ?thesis
      using snoc by (simp add: capturePositions_snoc)
  qed
qed

lemma drawScatterPlot_keeps:
  "promptPoints (drawScatterPlot env now pan s) = promptPoints s"
  "preSimPositions (drawScatterPlot env now pan s) = preSimPositions s"
  "postSimPositions (drawScatterPlot env now pan s) = postSimPositions s"
  "isAnimatingDispersal (drawScatterPlot env now pan s) = isAnimatingDispersal s"
  "animationFrameId (drawScatterPlot env now pan s) = animationFrameId s"
  "pointQuadtree (drawScatterPlot env now pan s) = pointQuadtree s"
  by (simp_all add: drawScatterPlot_def)

lemma drawScatterPlot_extends: "\<exists>rest. trace (drawScatterPlot env now pan s) = trace s @ rest"
  by (simp add: drawScatterPlot_trace)

subsection \<open>A batch that arrives during the animation\<close>

lemma laterBatch_during_animation:
  assumes "isAnimatingDispersal s" and "animationFrameId s = Some frame"
      and "frontPositionBuffer s" and "frontTextureCoordinateBuffer s" and "forceSimulation s"
  shows "\<exists>s' rest. laterBatch env now payload s = Returned s'
     \<and> \<not> isAnimatingDispersal s' \<and> animationFrameId s' = None
     \<and> promptPoints s' = promptPoints s @ points payload
     \<and> preSimPositions s' = Some (capturePositions (promptPoints s @ points payload))
     \<and> trace s' = trace s @ [SearchWorkerPost (AddPoints (points payload)),
          AppendToBuffers (map position_of (points payload)),
          CancelAnimationFrame frame,
          UpdateSimulation (promptPoints s @ points payload)] @ rest"
proof -
  define s5 where "s5 = emit [UpdateSimulation (promptPoints s @ points payload)]
    ((emit [CancelAnimationFrame frame]
       ((emit [AppendToBuffers (map position_of (points payload))]
          ((emit [SearchWorkerPost (AddPoints (points payload))]
             (s\<lparr> promptPoints := promptPoints s @ points payload \<rparr>))
           \<lparr> frontBufferPointSize := frontBufferPointSize s + length (points payload) \<rparr>))
        \<lparr> animationFrameId := None, isAnimatingDispersal := False \<rparr>))
     \<lparr> preSimPositions := Some (capturePositions (promptPoints s @ points payload)) \<rparr>)"
  define s6 where "s6 = (if anyTrue env (showPoints s5) then drawScatterPlot env now False s5 else s5)"
  have lb: "laterBatch env now payload s
      = Returned (if isLastBatch payload then rebuildPointQuadtree s6 else s6)"
    using assms
    by (simp add: laterBatch_def updateWebGLBuffers_def emit_def Let_def s5_def s6_def)
  have f5: "\<not> isAnimatingDispersal s5" "animationFrameId s5 = None"
    "promptPoints s5 = promptPoints s @ points payload"
    "preSimPositions s5 = Some (capturePositions (promptPoints s @ points payload))"
    "trace s5 = trace s @ [SearchWorkerPost (AddPoints (points payload)),
          AppendToBuffers (map position_of (points payload)),
          CancelAnimationFrame frame,
          UpdateSimulation (promptPoints s @ points payload)]"
    by (simp_all add: s5_def emit_def)
  have "\<exists>rest. trace s6 = trace s5 @ rest"
    using drawScatterPlot_extends[of env now False s5]
    by (cases "anyTrue env (showPoints s5)") (simp_all add: s6_def)
  then obtain rest where r: "trace s6 = trace s5 @ rest"
    by blast
  have f6: "\<not> isAnimatingDispersal s6" "animationFrameId s6 = None"
    "promptPoints s6 = promptPoints s @ points payload"
    "preSimPositions s6 = Some (capturePositions (promptPoints s @ points payload))"
    using f5 by (simp_all add: s6_def drawScatterPlot_keeps)
  show ?thesis
    using lb f6 r f5(5) by (auto simp: rebuildPointQuadtree_def)
qed

text \<open>
  C5.  When a batch that is not the first arrives while the dispersal animation is in
  flight (the flag is set and a frame is requested; the buffers and the force simulation
  exist, as they do once an animation has started), the handler returns, the pending frame
  is cancelled and the flag cleared, the new points are appended, and \<open>preSimPositions\<close> is
  a new map that gives for every point of the whole collection, old and new, its live
  \<open>x\<close> and \<open>y\<close> at this moment (the ids being distinct).  This happens before the force
  simulation is restarted with the whole collection: the cancellation precedes the call of
  \<open>updateSimulation\<close> in the trace, and the points handed to it are the points captured.
\<close>

theorem batch_during_animation_recaptures_live_positions:
  assumes "isAnimatingDispersal s" and "animationFrameId s = Some frame"
      and "\<not> isFirstBatch payload"
      and "frontPositionBuffer s" and "frontTextureCoordinateBuffer s" and "forceSimulation s"
      and "distinct (map pt_id (promptPoints s @ points payload))"
  shows "\<exists>s' pre rest.
       loaderWorkerMessageHandler env now (TransferLoadData payload) s = Returned s'
     \<and> \<not> isAnimatingDispersal s' \<and> animationFrameId s' = None
     \<and> promptPoints s' = promptPoints s @ points payload
     \<and> preSimPositions s' = Some pre
     \<and> (\<forall>p \<in> set (promptPoints s'). pre (pt_id p) = Some \<lparr> pos_x = pt_x p, pos_y = pt_y p \<rparr>)
     \<and> trace s' = trace s @
          [TreeWorkerPost (UpdateQuadtree (points payload)),
           SearchWorkerPost (AddPoints (points payload)),
           AppendToBuffers (map position_of (points payload)),
           CancelAnimationFrame frame,
           UpdateSimulation (promptPoints s')] @ rest"
proof -
  let ?s1 = "emit [TreeWorkerPost (UpdateQuadtree (points payload))] s"
  have a: "isAnimatingDispersal ?s1" "animationFrameId ?s1 = Some frame"
    "frontPositionBuffer ?s1" "frontTextureCoordinateBuffer ?s1" "forceSimulation ?s1"
    using assms by (simp_all add: emit_def)
  obtain s2 rest where lb: "laterBatch env now payload ?s1 = Returned s2"
    and f: "\<not> isAnimatingDispersal s2" "animationFrameId s2 = None"
      "promptPoints s2 = promptPoints ?s1 @ points payload"
      "preSimPositions s2 = Some (capturePositions (promptPoints ?s1 @ points payload))"
    and t: "trace s2 = trace ?s1 @ [SearchWorkerPost (AddPoints (points payload)),
          AppendToBuffers (map position_of (points payload)),
          CancelAnimationFrame frame,
          UpdateSimulation (promptPoints ?s1 @ points payload)] @ rest"
    using laterBatch_during_animation[OF a, of env now payload] by blast
  have h: "loaderWorkerMessageHandler env now (TransferLoadData payload) s
             = Returned (updateFooter s2)"
    using assms(3) lb by (simp add: loaderWorkerMessageHandler_def)
  have pp: "promptPoints ?s1 = promptPoints s" and tt: "trace ?s1 = trace s @ [TreeWorkerPost (UpdateQuadtree (points payload))]"
    by (simp_all add: emit_def)
  have u: "\<not> isAnimatingDispersal (updateFooter s2)" "animationFrameId (updateFooter s2) = None"
    "promptPoints (updateFooter s2) = promptPoints s @ points payload"
    "preSimPositions (updateFooter s2) = Some (capturePositions (promptPoints s @ points payload))"
    using f pp by (simp_all add: updateFooter_def emit_def)
  have ut: "trace (updateFooter s2) = trace s @
          [TreeWorkerPost (UpdateQuadtree (points payload)),
           SearchWorkerPost (AddPoints (points payload)),
           AppendToBuffers (map position_of (points payload)),
           CancelAnimationFrame frame,
           UpdateSimulation (promptPoints (updateFooter s2))]
          @ (rest @ [FooterStoreSet (length (promptPoints s2))])"
    using t pp tt u(3) by (simp add: updateFooter_def emit_def)
  have cap: "\<forall>p \<in> set (promptPoints (updateFooter s2)).
          capturePositions (promptPoints s @ points payload) (pt_id p)
            = Some \<lparr> pos_x = pt_x p, pos_y = pt_y p \<rparr>"
    using capturePositions_distinct[OF assms(7)] u(3) by (simp add: position_of_def)
  show ?thesis
    using h u ut cap by blast
qed

theorem batch_during_animation_recaptures_live_positions_witness:
  "isAnimatingDispersal animating_page \<and> animationFrameId animating_page = Some 7
   \<and> \<not> isFirstBatch later_payload
   \<and> frontPositionBuffer animating_page \<and> frontTextureCoordinateBuffer animating_page
   \<and> forceSimulation animating_page
   \<and> distinct (map pt_id (promptPoints animating_page @ points later_payload))
   \<and> (\<exists>s' pre rest.
         loaderWorkerMessageHandler sample_env 50 (TransferLoadData later_payload) animating_page
           = Returned s'
       \<and> animationFrameId s' = None
       \<and> promptPoints s' = [sample_point 0 1 2, sample_point 1 5 6]
       \<and> preSimPositions s' = Some pre
       \<and> pre 0 = Some \<lparr> pos_x = 1, pos_y = 2 \<rparr>
       \<and> pre 1 = Some \<lparr> pos_x = 5, pos_y = 6 \<rparr>
       \<and> trace s' = trace animating_page @
          [TreeWorkerPost (UpdateQuadtree (points later_payload)),
           SearchWorkerPost (AddPoints (points later_payload)),
           AppendToBuffers (map position_of (points later_payload)),
           CancelAnimationFrame 7,
           UpdateSimulation (promptPoints s')] @ rest)"
proof -
  have h: "isAnimatingDispersal animating_page" "animationFrameId animating_page = Some 7"
    "\<not> isFirstBatch later_payload"
    "frontPositionBuffer animating_page" "frontTextureCoordinateBuffer animating_page"
    "forceSimulation animating_page"
    "distinct (map pt_id (promptPoints animating_page @ points later_payload))"
    by (simp_all add: animating_page_def later_payload_def ui_ready_def ui_init_def
        sample_point_def)
  have pp: "promptPoints animating_page @ points later_payload
              = [sample_point 0 1 2, sample_point 1 5 6]"
    by (simp add: animating_page_def later_payload_def)
  obtain s' pre rest where r:
    "loaderWorkerMessageHandler sample_env 50 (TransferLoadData later_payload) animating_page
       = Returned s'"
    "animationFrameId s' = None"
    "promptPoints s' = promptPoints animating_page @ points later_payload"
    "preSimPositions s' = Some pre"
    "\<forall>p \<in> set (promptPoints s'). pre (pt_id p) = Some \<lparr> pos_x = pt_x p, pos_y = pt_y p \<rparr>"
    "trace s' = trace animating_page @
          [TreeWorkerPost (UpdateQuadtree (points later_payload)),
           SearchWorkerPost (AddPoints (points later_payload)),
           AppendToBuffers (map position_of (points later_payload)),
           CancelAnimationFrame 7,
           UpdateSimulation (promptPoints s')] @ rest"
    using batch_during_animation_recaptures_live_positions [OF h, of sample_env 50] by blast
  have "pre 0 = Some \<lparr> pos_x = 1, pos_y = 2 \<rparr>" "pre 1 = Some \<lparr> pos_x = 5, pos_y = 6 \<rparr>"
    using r(5) unfolding r(3) pp by (simp_all add: sample_point_def)
  then show ?thesis
    using h r(1,2,4,6) r(3)[unfolded pp] by blast
qed

subsection \<open>The last frame\<close>

text \<open>
  The \<open>post\<close> snapshot is taken when the force simulation ends, from the positions that
  the simulation gave to the points.
\<close>

lemma onSimulationComplete_post:
  "postSimPositions (onSimulationComplete env now s) = Some (capturePositions (promptPoints s))"
  by (simp add: onSimulationComplete_def startDispersalAnimation_def requestFrame_def
      renderFrame_def updatePointTransformsOnly_def updatePointPositionsLightweight_def
      initWebGLBuffers_def emit_def Let_def split: option.splits)

lemma moveAll_length: "length (moveAll m ps) = length ps"
  by (simp add: moveAll_def)

lemma moveAll_nth:
  assumes "i < length ps"
  shows "pt_id (moveAll m ps ! i) = pt_id (ps ! i)"
    and "m (pt_id (ps ! i)) = Some q \<Longrightarrow> pt_x (moveAll m ps ! i) = pos_x q \<and> pt_y (moveAll m ps ! i) = pos_y q"
    and "m (pt_id (ps ! i)) = None \<Longrightarrow> moveAll m ps ! i = ps ! i"
  using assms by (simp_all add: moveAll_def moveTo_def split: option.splits)

lemma finalize_fields:
  "promptPoints (finalizeDispersalAnimation env clock s) =
     (case postSimPositions s of Some post \<Rightarrow> moveAll post (promptPoints s) | None \<Rightarrow> promptPoints s)"
  "pointQuadtree (finalizeDispersalAnimation env clock s) =
     Some (map position_of (promptPoints (finalizeDispersalAnimation env clock s)))"
  "preSimPositions (finalizeDispersalAnimation env clock s) = None"
  "postSimPositions (finalizeDispersalAnimation env clock s) = None"
  "\<not> isAnimatingDispersal (finalizeDispersalAnimation env clock s)"
  "animationFrameId (finalizeDispersalAnimation env clock s) = None"
  by (simp_all add: finalizeDispersalAnimation_def Let_def rebuildPointQuadtree_def
      drawScatterPlot_keeps updatePointPositions_def emit_def split: option.splits)

lemma fullRedraws_append: "fullRedraws (a @ b) = fullRedraws a + fullRedraws b"
  by (simp add: fullRedraws_def)

lemma fullRedraws_enter: "fullRedraws (map (\<lambda>r. NewImage (img_src r)) rs) = 0"
  by (induction rs) (simp_all add: fullRedraws_def)

lemma fullRedraws_updates: "fullRedraws (map fst (map (updateImage cache sz) es)) = 0"
  by (induction es) (simp_all add: fullRedraws_def fst_updateImage split: option.splits)

lemma fullRedraws_imageUpdates: "fullRedraws (map fst (imageUpdates env s)) = 0"
  unfolding imageUpdates_def by (rule fullRedraws_updates)

lemma drawScatterPlot_fullRedraws:
  "\<exists>X. trace (drawScatterPlot env now False s) = trace s @ X
       \<and> fullRedraws X = (if drawPasses now False s then 1 else 0)"
proof (cases "drawPasses now False s")
  case True
  have "fullRedraws ([ReglClear] @ map (\<lambda>r. NewImage (img_src r)) (enterRequests env s)
          @ [SetPointTransforms (mergedTransforms env s)] @ map fst (imageUpdates env s)) = 1"
    unfolding fullRedraws_append fullRedraws_enter fullRedraws_imageUpdates
    by (simp add: fullRedraws_def)
  then show ?thesis
    using True by (simp add: drawScatterPlot_trace)
next
  case False
  then show ?thesis
    by (simp add: drawScatterPlot_trace fullRedraws_def)
qed

lemma finalize_trace:
  "\<exists>X. trace (finalizeDispersalAnimation env clock s) = trace s @ X
       \<and> fullRedraws X = (if drawPasses clock False s then 1 else 0)"
proof -
  define s2 where "s2 = (case postSimPositions s of
      Some post \<Rightarrow> s\<lparr> isAnimatingDispersal := False, animationFrameId := None,
                        promptPoints := moveAll post (promptPoints s) \<rparr>
    | None \<Rightarrow> s\<lparr> isAnimatingDispersal := False, animationFrameId := None \<rparr>)"
  define s3 where "s3 = updatePointPositions s2"
  have t2: "trace s2 = trace s"
    and d2: "lastDrawTime s2 = lastDrawTime s" "webGLMatrices s2 = webGLMatrices s"
      "frontPositionBuffer s2 = frontPositionBuffer s"
      "frontTextureCoordinateBuffer s2 = frontTextureCoordinateBuffer s"
    by (simp_all add: s2_def split: option.splits)
  obtain Y where y: "trace s3 = trace s @ Y" "fullRedraws Y = 0"
    and d3: "drawPasses clock False s3 = drawPasses clock False s"
    using t2 d2
    by (cases "\<not> frontPositionBuffer s2 \<or> promptPoints s2 = []")
      (auto simp: s3_def updatePointPositions_def emit_def fullRedraws_def drawPasses_def)
  obtain X where x: "trace (drawScatterPlot env clock False s3) = trace s3 @ X"
    "fullRedraws X = (if drawPasses clock False s3 then 1 else 0)"
    using drawScatterPlot_fullRedraws by blast
  have "trace (finalizeDispersalAnimation env clock s) = trace (drawScatterPlot env clock False s3)"
    by (simp add: finalizeDispersalAnimation_def Let_def rebuildPointQuadtree_def s3_def s2_def
        split: option.splits)
  then have "trace (finalizeDispersalAnimation env clock s) = trace s @ (Y @ X)"
    using x(1) y(1) by simp
  moreover have "fullRedraws (Y @ X) = (if drawPasses clock False s then 1 else 0)"
    using x(2) y(2) d3 by (simp add: fullRedraws_append)
  ultimately show ?thesis
    by blast
qed


lemma renderFrame_fields:
  "promptPoints (renderFrame env s) = promptPoints s"
  "postSimPositions (renderFrame env s) = postSimPositions s"
  "drawPasses clock False (renderFrame env s) = drawPasses clock False s"
  by (simp_all add: renderFrame_def updatePointTransformsOnly_def
      updatePointPositionsLightweight_def emit_def drawPasses_def)

lemma renderFrame_trace:
  "\<exists>Z. trace (renderFrame env s) = trace s @ Z \<and> fullRedraws Z = 0"
  by (simp add: renderFrame_def updatePointTransformsOnly_def
      updatePointPositionsLightweight_def emit_def fullRedraws_def)

lemma lerpAll_nth:
  "length (lerpAll pre post t ps) = length ps"
  "i < length ps \<Longrightarrow> pt_id (lerpAll pre post t ps ! i) = pt_id (ps ! i)"
  by (simp_all add: lerpAll_def lerpPoint_def split: option.splits)

lemma easeInOut_end: "easeInOut (min (e / ANIMATION_DURATION) 1) \<ge> 1" if "ANIMATION_DURATION \<le> e"
proof -
  have "1 \<le> e / ANIMATION_DURATION"
    using that by (simp add: ANIMATION_DURATION_def)
  then have "min (e / ANIMATION_DURATION) 1 = 1"
    by simp
  then show ?thesis
    by (simp add: easeInOut_def)
qed

lemma animate_final_frame:
  assumes "preSimPositions s = Some pre" and "postSimPositions s = Some post"
      and "ANIMATION_DURATION \<le> now - animationStartTime s"
  shows "animate env now clock s =
     Returned (finalizeDispersalAnimation env clock
       (renderFrame env
          (s\<lparr> promptPoints :=
                lerpAll pre post (easeInOut (min ((now - animationStartTime s) / ANIMATION_DURATION) 1))
                  (promptPoints s) \<rparr>)))"
  using assms easeInOut_end[OF assms(3)] by (simp add: animate_def Let_def)

lemma moveAll_lerpAll: "moveAll post (lerpAll pre post t ps) = moveAll post ps"
  by (induction ps) (auto simp: moveAll_def lerpAll_def lerpPoint_def moveTo_def split: option.splits)

lemma drawScatterPlot_throttled:
  "now - lastDrawTime s < DRAW_THROTTLE \<Longrightarrow> drawScatterPlot env now False s = s"
  by (simp add: drawScatterPlot_def)

lemma updatePointPositions_fields:
  "promptPoints (updatePointPositions s) = promptPoints s"
  "lastDrawTime (updatePointPositions s) = lastDrawTime s"
  "elements (updatePointPositions s) = elements s"
  by (simp_all add: updatePointPositions_def emit_def)

lemma just_drawn_facts:
  "preSimPositions just_drawn_page = Some [0 \<mapsto> \<lparr> pos_x = 0, pos_y = 0 \<rparr>]"
  "postSimPositions just_drawn_page = Some [0 \<mapsto> \<lparr> pos_x = 3, pos_y = 4 \<rparr>]"
  "animationStartTime just_drawn_page = 0"
  "promptPoints just_drawn_page = [sample_point 0 1 2]"
  "elements just_drawn_page = []"
  "lastDrawTime just_drawn_page = 1195"
  by (simp_all add: just_drawn_page_def animating_page_def ui_ready_def ui_init_def)

lemma animating_facts:
  "preSimPositions animating_page = Some [0 \<mapsto> \<lparr> pos_x = 0, pos_y = 0 \<rparr>]"
  "postSimPositions animating_page = Some [0 \<mapsto> \<lparr> pos_x = 3, pos_y = 4 \<rparr>]"
  "animationStartTime animating_page = 0"
  "promptPoints animating_page = [sample_point 0 1 2]"
  "drawPasses 1300 False animating_page"
  by (simp_all add: animating_page_def ui_ready_def ui_init_def drawPasses_def DRAW_THROTTLE_def)

text \<open>
  C4.  The claim fails on the code, which misses what its own comments say
  (\<open>finalizeDispersalAnimation\<close> is to ``do a full render pass'', and its call of
  \<open>drawScatterPlot(false)\<close> is the ``full redraw'').  The frame that finds the normalized
  time at 1 or beyond returns; it sets every point that has an entry in the \<open>post\<close>
  snapshot to exactly the \<open>x\<close> and \<open>y\<close> of this entry, then calls \<open>updatePointPositions\<close>,
  \<open>drawScatterPlot(false)\<close> and \<open>rebuildPointQuadtree\<close>, in this order, on the points so
  placed, and drops both snapshots.  But \<open>drawScatterPlot(false)\<close> starts with the
  throttle: when the scatter plot was drawn less than 16 ms before, the call changes
  nothing, so that no redraw follows the snap and the overlay keeps the nodes it had.  When
  the call draws, it is one full redraw.
\<close>

theorem final_redraw_cut_short_by_draw_throttle:
  assumes "preSimPositions s = Some pre" and "postSimPositions s = Some post"
      and "ANIMATION_DURATION \<le> now - animationStartTime s"
  shows "\<exists>snapped s'.
       animate env now clock s = Returned s'
     \<and> snapped =
         (renderFrame env (s\<lparr> promptPoints := lerpAll pre post 1 (promptPoints s) \<rparr>))
           \<lparr> isAnimatingDispersal := False, animationFrameId := None,
             promptPoints := moveAll post (promptPoints s) \<rparr>
     \<and> s' = (rebuildPointQuadtree
               (drawScatterPlot env clock False (updatePointPositions snapped)))
             \<lparr> preSimPositions := None, postSimPositions := None \<rparr>
     \<and> promptPoints snapped = moveAll post (promptPoints s)
     \<and> promptPoints s' = moveAll post (promptPoints s)
     \<and> pointQuadtree s' = Some (map position_of (moveAll post (promptPoints s)))
     \<and> (drawPasses clock False s \<longrightarrow> fullRedraws (added s s') = 1)
     \<and> (clock - lastDrawTime s < DRAW_THROTTLE \<longrightarrow>
          drawScatterPlot env clock False (updatePointPositions snapped)
            = updatePointPositions snapped
          \<and> fullRedraws (added s s') = 0
          \<and> elements s' = elements s
          \<and> lastDrawTime s' = lastDrawTime s)"
proof -
  define t where "t = easeInOut (min ((now - animationStartTime s) / ANIMATION_DURATION) 1)"
  have "1 \<le> (now - animationStartTime s) / ANIMATION_DURATION"
    using assms(3) by (simp add: ANIMATION_DURATION_def)
  then have "min ((now - animationStartTime s) / ANIMATION_DURATION) 1 = 1"
    by simp
  then have t1: "t = 1"
    by (simp add: t_def easeInOut_def)
  define s1 where
    "s1 = renderFrame env (s\<lparr> promptPoints := lerpAll pre post t (promptPoints s) \<rparr>)"
  define snapped where
    "snapped = s1\<lparr> isAnimatingDispersal := False, animationFrameId := None,
                   promptPoints := moveAll post (promptPoints s1) \<rparr>"
  define s' where "s' = finalizeDispersalAnimation env clock s1"
  have an: "animate env now clock s = Returned s'"
    using animate_final_frame[OF assms] by (simp add: s'_def s1_def t_def)
  have f1: "promptPoints s1 = lerpAll pre post t (promptPoints s)"
    "postSimPositions s1 = Some post" "lastDrawTime s1 = lastDrawTime s"
    "elements s1 = elements s" "drawPasses clock False s1 = drawPasses clock False s"
    using assms(2)
    by (simp_all add: s1_def renderFrame_def updatePointTransformsOnly_def
        updatePointPositionsLightweight_def emit_def drawPasses_def)
  have order: "s' = (rebuildPointQuadtree
                      (drawScatterPlot env clock False (updatePointPositions snapped)))
                    \<lparr> preSimPositions := None, postSimPositions := None \<rparr>"
    by (simp add: s'_def snapped_def finalizeDispersalAnimation_def Let_def f1(2))
  have snap: "promptPoints snapped = moveAll post (promptPoints s)"
    by (simp add: snapped_def f1(1) moveAll_lerpAll)
  have explicit: "snapped =
         (renderFrame env (s\<lparr> promptPoints := lerpAll pre post 1 (promptPoints s) \<rparr>))
           \<lparr> isAnimatingDispersal := False, animationFrameId := None,
             promptPoints := moveAll post (promptPoints s) \<rparr>"
    using snap t1 by (simp add: snapped_def s1_def)
  have pts: "promptPoints s' = moveAll post (promptPoints s)"
    by (simp add: s'_def finalize_fields(1) f1(1,2) moveAll_lerpAll)
  have tree: "pointQuadtree s' = Some (map position_of (moveAll post (promptPoints s)))"
    using finalize_fields(2)[of env clock s1] pts by (simp add: s'_def)
  obtain Z where z: "trace s1 = trace s @ Z" "fullRedraws Z = 0"
    using renderFrame_trace[of env "s\<lparr> promptPoints := lerpAll pre post t (promptPoints s) \<rparr>"]
    by (auto simp: s1_def)
  obtain X where x: "trace s' = trace s1 @ X"
    "fullRedraws X = (if drawPasses clock False s1 then 1 else 0)"
    using finalize_trace[of env clock s1] by (auto simp: s'_def)
  have "added s s' = Z @ X"
    using z(1) x(1) by (simp add: added_def)
  then have redraws: "fullRedraws (added s s') = (if drawPasses clock False s then 1 else 0)"
    using z(2) x(2) f1(5) by (simp add: fullRedraws_append)
  have throttled: "drawScatterPlot env clock False (updatePointPositions snapped)
            = updatePointPositions snapped
          \<and> fullRedraws (added s s') = 0
          \<and> elements s' = elements s
          \<and> lastDrawTime s' = lastDrawTime s"
    if th: "clock - lastDrawTime s < DRAW_THROTTLE"
  proof -
    have l: "lastDrawTime (updatePointPositions snapped) = lastDrawTime s"
      and e: "elements (updatePointPositions snapped) = elements s"
      by (simp_all add: updatePointPositions_fields snapped_def f1(3,4))
    have d: "drawScatterPlot env clock False (updatePointPositions snapped)
               = updatePointPositions snapped"
      using th by (simp add: drawScatterPlot_throttled l)
    have "\<not> drawPasses clock False s"
      using th by (simp add: drawPasses_def)
    then have r: "fullRedraws (added s s') = 0"
      using redraws by simp
    have "elements s' = elements s" "lastDrawTime s' = lastDrawTime s"
      unfolding order d by (simp_all add: rebuildPointQuadtree_def l e)
    then show ?thesis
      using d r by blast
  qed
  have full: "drawPasses clock False s \<longrightarrow> fullRedraws (added s s') = 1"
    using redraws by simp
  show ?thesis
    using an explicit order snap pts tree full throttled by blast
qed

theorem final_redraw_cut_short_by_draw_throttle_witness:
  "preSimPositions just_drawn_page = Some [0 \<mapsto> \<lparr> pos_x = 0, pos_y = 0 \<rparr>]
   \<and> postSimPositions just_drawn_page = Some [0 \<mapsto> \<lparr> pos_x = 3, pos_y = 4 \<rparr>]
   \<and> ANIMATION_DURATION \<le> 1200 - animationStartTime just_drawn_page
   \<and> 1201 - lastDrawTime just_drawn_page < DRAW_THROTTLE
   \<and> returned (animate sample_env 1200 1201 just_drawn_page)
   \<and> map position_of (promptPoints after_final_frame) = [\<lparr> pos_x = 3, pos_y = 4 \<rparr>]
   \<and> pointQuadtree after_final_frame = Some [\<lparr> pos_x = 3, pos_y = 4 \<rparr>]
   \<and> fullRedraws (added just_drawn_page after_final_frame) = 0
   \<and> elements after_final_frame = []
   \<and> lastDrawTime after_final_frame = 1195
   \<and> drawPasses 1300 False animating_page
   \<and> fullRedraws (added animating_page (outcome_state (animate sample_env 1200 1300 animating_page)))
       = 1"
proof -
  have d: "ANIMATION_DURATION \<le> 1200 - animationStartTime just_drawn_page"
    and th: "1201 - lastDrawTime just_drawn_page < DRAW_THROTTLE"
    by (simp_all add: just_drawn_facts ANIMATION_DURATION_def DRAW_THROTTLE_def)
  obtain s' where r:
    "animate sample_env 1200 1201 just_drawn_page = Returned s'"
    "promptPoints s' = moveAll [0 \<mapsto> \<lparr> pos_x = 3, pos_y = 4 \<rparr>] (promptPoints just_drawn_page)"
    "pointQuadtree s' = Some (map position_of
        (moveAll [0 \<mapsto> \<lparr> pos_x = 3, pos_y = 4 \<rparr>] (promptPoints just_drawn_page)))"
    "fullRedraws (added just_drawn_page s') = 0"
    "elements s' = elements just_drawn_page"
    "lastDrawTime s' = lastDrawTime just_drawn_page"
    using th final_redraw_cut_short_by_draw_throttle
        [OF just_drawn_facts(1,2) d, of sample_env 1201]
    by blast
  have s: "after_final_frame = s'"
    by (simp add: after_final_frame_def r(1))
  have m: "map position_of (moveAll [0 \<mapsto> \<lparr> pos_x = 3, pos_y = 4 \<rparr>] (promptPoints just_drawn_page))
             = [\<lparr> pos_x = 3, pos_y = 4 \<rparr>]"
    by (simp add: just_drawn_facts moveAll_def moveTo_def position_of_def sample_point_def)
  have d2: "ANIMATION_DURATION \<le> 1200 - animationStartTime animating_page"
    by (simp add: animating_facts ANIMATION_DURATION_def)
  obtain s'' where r2:
    "animate sample_env 1200 1300 animating_page = Returned s''"
    "drawPasses 1300 False animating_page \<longrightarrow> fullRedraws (added animating_page s'') = 1"
    using final_redraw_cut_short_by_draw_throttle
        [OF animating_facts(1,2) d2, of sample_env 1300]
    by blast
  have full: "fullRedraws (added animating_page
                (outcome_state (animate sample_env 1200 1300 animating_page))) = 1"
    using r2 animating_facts(5) by simp
  show ?thesis
    using d th r(1) r(2-6)[folded s] m full animating_facts(5)
    by (simp add: just_drawn_facts)
qed

section \<open>Properties of hovering\<close>

lemma mouseoverPoint_local:
  assumes "pointQuadtree s \<noteq> None" and "promptPoints s \<noteq> []"
  shows "mouseoverDecision env x y s =
     (case closestPoint env x y s of
        None \<Rightarrow> NoHighlight
      | Some i \<Rightarrow>
          if screenDistance x y (applyX s (xScale env (pt_x (promptPoints s ! i))))
               (applyY s (yScale env (pt_y (promptPoints s ! i)))) \<le> hoverThreshold s
          then Highlight i else NoHighlight)"
  using assms by (simp add: mouseoverDecision_def Let_def split: option.splits)

lemma mouseoverPoint_worker:
  assumes "pointQuadtree s = None \<or> promptPoints s = []"
  shows "mouseoverDecision env x y s = AskTreeWorker"
  using assms by (auto simp: mouseoverDecision_def)

lemma treeWorker_reply:
  assumes "lastMouseClientPosition s = Some (mouseX, mouseY)"
  shows "treeWorkerMessageHandler env (FinishQuadtreeSearch p) s =
     (if workerDistance (applyX s (xScale env (pt_x p))) (applyY s (yScale env (pt_y p)))
           mouseX mouseY \<le> curHoverRadius env s
      then highlightPoint env (Some (Clone p)) False s else s)"
  using assms by (simp add: treeWorkerMessageHandler_def Let_def)

lemma unindexed_facts:
  "pointQuadtree unindexed_page = None"
  "promptPoints unindexed_page = [sample_point 0 8 8]"
  "lastMouseClientPosition unindexed_page = Some (0, 0)"
  "hoverPoint unindexed_page = None"
  "zoom_k unindexed_page = 1" "zoom_x unindexed_page = 0" "zoom_y unindexed_page = 0"
  "curPointWidth unindexed_page = 1"
  "showPoints unindexed_page = [True]" "hideHighlights unindexed_page = False"
  "elements unindexed_page = []"
  by (simp_all add: unindexed_page_def ui_ready_def ui_init_def)

lemma sqrt_128: "10 < sqrt 128" "7 < sqrt 128"
  by (rule real_less_rsqrt, simp)+

lemma unindexed_thresholds:
  "hoverThreshold unindexed_page = 7" "curHoverRadius sample_env unindexed_page = 10"
  by (simp_all add: hoverThreshold_def curHoverRadius_def unindexed_facts sample_env_def
      HOVER_RADIUS_def Let_def)

lemma unindexed_reply:
  "hoverPoint (treeWorkerMessageHandler sample_env (FinishQuadtreeSearch (sample_point 0 8 8))
                 unindexed_page)
     = Some (Clone ((sample_point 0 8 8)\<lparr> tooltipInfo := tooltipHtml ''Ada'' \<rparr>))"
proof -
  have "workerDistance (applyX unindexed_page (xScale sample_env (pt_x (sample_point 0 8 8))))
          (applyY unindexed_page (yScale sample_env (pt_y (sample_point 0 8 8)))) 0 0 = 8"
    by (simp add: workerDistance_def applyX_def applyY_def unindexed_facts sample_env_def
        sample_point_def)
  then have "treeWorkerMessageHandler sample_env (FinishQuadtreeSearch (sample_point 0 8 8))
               unindexed_page
             = highlightPoint sample_env (Some (Clone (sample_point 0 8 8))) False unindexed_page"
    by (simp add: treeWorker_reply[OF unindexed_facts(3)] unindexed_thresholds)
  moreover have "hoverPoint (highlightPoint sample_env (Some (Clone (sample_point 0 8 8))) False
                               unindexed_page)
             = Some (Clone ((sample_point 0 8 8)\<lparr> tooltipInfo := tooltipHtml ''Ada'' \<rparr>))"
    by (simp add: highlightPoint_def unindexed_facts Let_def)
      (simp add: sample_env_def sample_point_def)
  ultimately show ?thesis
    by simp
qed

text \<open>
  C3, as stated, fails while the local quadtree is not built.  With the point at
  \<open>(8, 8)\<close> and no quadtree, \<open>mouseoverPoint\<close> highlights nothing, also when the pointer
  is exactly on the point; it asks the tree worker.  The reply for the pointer at the
  origin is judged by the larger coordinate difference, 8, against a radius of 10, and the
  point is highlighted, although its Euclidean distance from the pointer, the square root of 128, exceeds
  this radius and the threshold \<open>max (7 / k) (2 * pointWidth) = 7\<close> of the claim.
\<close>

theorem hover_without_quadtree_counterexample:
  "pointQuadtree unindexed_page = None
   \<and> screenDistance 8 8 8 8 \<le> hoverThreshold unindexed_page
   \<and> mouseoverDecision sample_env 8 8 unindexed_page = AskTreeWorker
   \<and> hoverPoint (mouseoverPoint sample_env 8 8 unindexed_page) = None
   \<and> mouseoverDecision sample_env 0 0 unindexed_page = AskTreeWorker
   \<and> hoverPoint (treeWorkerMessageHandler sample_env (FinishQuadtreeSearch (sample_point 0 8 8))
                    unindexed_page)
       = Some (Clone ((sample_point 0 8 8)\<lparr> tooltipInfo := tooltipHtml ''Ada'' \<rparr>))
   \<and> \<not> screenDistance 0 0 8 8 \<le> hoverThreshold unindexed_page
   \<and> \<not> screenDistance 0 0 8 8 \<le> curHoverRadius sample_env unindexed_page"
proof -
  have a: "mouseoverDecision sample_env px py unindexed_page = AskTreeWorker" for px py
    by (rule mouseoverPoint_worker) (simp add: unindexed_facts)
  have h: "hoverPoint (mouseoverPoint sample_env 8 8 unindexed_page) = None"
    by (simp add: mouseoverPoint_def a emit_def unindexed_facts)
  have d0: "screenDistance 8 8 8 8 = 0" and d1: "screenDistance 0 0 8 8 = sqrt 128"
    by (simp_all add: screenDistance_def)
  show ?thesis
    using a h unindexed_reply sqrt_128
    by (simp add: d0 d1 unindexed_thresholds unindexed_facts)
qed

lemma hover_facts:
  "pointQuadtree hover_page = Some [\<lparr> pos_x = 7, pos_y = 0 \<rparr>]"
  "promptPoints hover_page = [sample_point 0 7 0]"
  "zoom_k hover_page = 1" "zoom_x hover_page = 0" "zoom_y hover_page = 0"
  "curPointWidth hover_page = 2.5"
  by (simp_all add: hover_page_def ui_ready_def ui_init_def)

lemma hover_closest: "closestPoint sample_env 0 0 hover_page = Some 0"
  by (simp add: closestPoint_def hover_facts sample_env_def)

text \<open>
  C3, amended.  For every pointer position and a positive zoom scale: when the local
  quadtree is built and there are points, \<open>mouseoverPoint\<close> inverts the zoom transform and
  the scales, asks the quadtree for the nearest point, and passes this point to
  \<open>highlightPoint\<close> if and only if its Euclidean distance on the screen from the pointer
  is at most \<open>max (7 / k) (2 * curPointWidth)\<close>, the distance equal to the threshold
  included; otherwise it leaves the state as it is.  When the quadtree is not built or
  there is no point, it highlights nothing and sends the inverted position to the tree
  worker, whose reply is passed to \<open>highlightPoint\<close> if and only if the larger of the two
  coordinate differences on the screen is at most \<open>max HOVER_RADIUS (highlightRadius * k)\<close>.
\<close>

theorem hover_gate_inclusive_with_local_quadtree:
  assumes "0 < zoom_k s"
  shows "(pointQuadtree s = Some tree \<longrightarrow>
            closestPoint env x y s =
              (case quadtree_find env tree (promptPoints s)
                      (xScale_invert env ((x - zoom_x s) / zoom_k s))
                      (yScale_invert env ((y - zoom_y s) / zoom_k s)) of
                 None \<Rightarrow> None
               | Some i \<Rightarrow> if i < length (promptPoints s) then Some i else None))
       \<and> (pointQuadtree s \<noteq> None \<and> promptPoints s \<noteq> [] \<and> closestPoint env x y s = Some i \<longrightarrow>
            (mouseoverDecision env x y s = Highlight i \<longleftrightarrow>
               sqrt ((x - (xScale env (pt_x (promptPoints s ! i)) * zoom_k s + zoom_x s)) ^ 2
                   + (y - (yScale env (pt_y (promptPoints s ! i)) * zoom_k s + zoom_y s)) ^ 2)
                 \<le> max (7 / zoom_k s) (curPointWidth s * 2))
            \<and> (mouseoverDecision env x y s = Highlight i \<longrightarrow>
                 mouseoverPoint env x y s = highlightPoint env (Some (Live i)) False s)
            \<and> (mouseoverDecision env x y s \<noteq> Highlight i \<longrightarrow> mouseoverPoint env x y s = s))
       \<and> (pointQuadtree s \<noteq> None \<and> promptPoints s \<noteq> [] \<and> closestPoint env x y s = None \<longrightarrow>
            mouseoverPoint env x y s = s)
       \<and> (pointQuadtree s = None \<or> promptPoints s = [] \<longrightarrow>
            mouseoverDecision env x y s = AskTreeWorker
            \<and> hoverPoint (mouseoverPoint env x y s) = hoverPoint s
            \<and> added s (mouseoverPoint env x y s) =
                [TreeWorkerPost
                   (StartQuadtreeSearch
                      (xScale_invert env ((x - zoom_x s) / zoom_k s))
                      (yScale_invert env ((y - zoom_y s) / zoom_k s))
                      (case (timeInspectMode s, curTime s) of (True, Some t) \<Rightarrow> t | _ \<Rightarrow> [])
                      (searchGroupID env s))])
       \<and> (lastMouseClientPosition s = Some (mouseX, mouseY) \<longrightarrow>
            treeWorkerMessageHandler env (FinishQuadtreeSearch p) s =
              (if max \<bar>xScale env (pt_x p) * zoom_k s + zoom_x s - mouseX\<bar>
                      \<bar>yScale env (pt_y p) * zoom_k s + zoom_y s - mouseY\<bar>
                    \<le> max HOVER_RADIUS
                          (max (10 / zoom_k s)
                               (scatterDotRadius env * exp (ln (zoom_k s) * 0.55) / zoom_k s)
                           * zoom_k s)
               then highlightPoint env (Some (Clone p)) False s else s))"
proof (intro conjI impI)
  assume "pointQuadtree s = Some tree"
  then show "closestPoint env x y s =
              (case quadtree_find env tree (promptPoints s)
                      (xScale_invert env ((x - zoom_x s) / zoom_k s))
                      (yScale_invert env ((y - zoom_y s) / zoom_k s)) of
                 None \<Rightarrow> None
               | Some i \<Rightarrow> if i < length (promptPoints s) then Some i else None)"
    by (simp add: closestPoint_def invertX_def invertY_def)
next
  assume a: "pointQuadtree s \<noteq> None \<and> promptPoints s \<noteq> [] \<and> closestPoint env x y s = Some i"
  then have d: "mouseoverDecision env x y s =
      (if screenDistance x y (applyX s (xScale env (pt_x (promptPoints s ! i))))
            (applyY s (yScale env (pt_y (promptPoints s ! i)))) \<le> hoverThreshold s
       then Highlight i else NoHighlight)"
    by (simp add: mouseoverPoint_local)
  show "mouseoverDecision env x y s = Highlight i \<longleftrightarrow>
          sqrt ((x - (xScale env (pt_x (promptPoints s ! i)) * zoom_k s + zoom_x s)) ^ 2
              + (y - (yScale env (pt_y (promptPoints s ! i)) * zoom_k s + zoom_y s)) ^ 2)
            \<le> max (7 / zoom_k s) (curPointWidth s * 2)"
    by (simp add: d screenDistance_def hoverThreshold_def applyX_def applyY_def)
  show "mouseoverPoint env x y s = highlightPoint env (Some (Live i)) False s"
    if "mouseoverDecision env x y s = Highlight i"
    using that by (simp add: mouseoverPoint_def)
  show "mouseoverPoint env x y s = s" if "mouseoverDecision env x y s \<noteq> Highlight i"
    using that d by (simp add: mouseoverPoint_def split: if_splits)
next
  assume "pointQuadtree s \<noteq> None \<and> promptPoints s \<noteq> [] \<and> closestPoint env x y s = None"
  then show "mouseoverPoint env x y s = s"
    by (simp add: mouseoverPoint_def mouseoverPoint_local)
next
  assume w: "pointQuadtree s = None \<or> promptPoints s = []"
  then show "mouseoverDecision env x y s = AskTreeWorker"
    by (rule mouseoverPoint_worker)
  then show "hoverPoint (mouseoverPoint env x y s) = hoverPoint s"
    and "added s (mouseoverPoint env x y s) =
                [TreeWorkerPost
                   (StartQuadtreeSearch
                      (xScale_invert env ((x - zoom_x s) / zoom_k s))
                      (yScale_invert env ((y - zoom_y s) / zoom_k s))
                      (case (timeInspectMode s, curTime s) of (True, Some t) \<Rightarrow> t | _ \<Rightarrow> [])
                      (searchGroupID env s))]"
    by (simp_all add: mouseoverPoint_def emit_def added_def invertX_def invertY_def)
next
  assume "lastMouseClientPosition s = Some (mouseX, mouseY)"
  then show "treeWorkerMessageHandler env (FinishQuadtreeSearch p) s =
              (if max \<bar>xScale env (pt_x p) * zoom_k s + zoom_x s - mouseX\<bar>
                      \<bar>yScale env (pt_y p) * zoom_k s + zoom_y s - mouseY\<bar>
                    \<le> max HOVER_RADIUS
                          (max (10 / zoom_k s)
                               (scatterDotRadius env * exp (ln (zoom_k s) * 0.55) / zoom_k s)
                           * zoom_k s)
               then highlightPoint env (Some (Clone p)) False s else s)"
    by (simp add: treeWorker_reply workerDistance_def curHoverRadius_def applyX_def applyY_def
        Let_def)
qed

theorem hover_gate_inclusive_with_local_quadtree_witness:
  "0 < zoom_k hover_page
   \<and> pointQuadtree hover_page \<noteq> None \<and> promptPoints hover_page \<noteq> []
   \<and> closestPoint sample_env 0 0 hover_page = Some 0
   \<and> sqrt ((0 - (xScale sample_env (pt_x (promptPoints hover_page ! 0)) * zoom_k hover_page
                   + zoom_x hover_page)) ^ 2
          + (0 - (yScale sample_env (pt_y (promptPoints hover_page ! 0)) * zoom_k hover_page
                   + zoom_y hover_page)) ^ 2) = 7
   \<and> max (7 / zoom_k hover_page) (curPointWidth hover_page * 2) = 7
   \<and> mouseoverDecision sample_env 0 0 hover_page = Highlight 0
   \<and> mouseoverPoint sample_env 0 0 hover_page
       = highlightPoint sample_env (Some (Live 0)) False hover_page
   \<and> pointQuadtree empty_tree_page \<noteq> None \<and> promptPoints empty_tree_page \<noteq> []
   \<and> closestPoint sample_env 0 0 empty_tree_page = None
   \<and> mouseoverPoint sample_env 0 0 empty_tree_page = empty_tree_page
   \<and> 0 < zoom_k unindexed_page \<and> pointQuadtree unindexed_page = None
   \<and> mouseoverDecision sample_env 0 0 unindexed_page = AskTreeWorker
   \<and> lastMouseClientPosition unindexed_page = Some (0, 0)
   \<and> treeWorkerMessageHandler sample_env (FinishQuadtreeSearch (sample_point 0 8 8)) unindexed_page
       = highlightPoint sample_env (Some (Clone (sample_point 0 8 8))) False unindexed_page"
proof -
  have k: "0 < zoom_k hover_page"
    by (simp add: hover_facts)
  have q: "pointQuadtree hover_page \<noteq> None \<and> promptPoints hover_page \<noteq> []
           \<and> closestPoint sample_env 0 0 hover_page = Some 0"
    by (simp add: hover_facts hover_closest)
  have "sqrt 49 = 7"
    by (rule real_sqrt_unique) simp_all
  then have dist: "sqrt ((0 - (xScale sample_env (pt_x (promptPoints hover_page ! 0)) * zoom_k hover_page
                   + zoom_x hover_page)) ^ 2
          + (0 - (yScale sample_env (pt_y (promptPoints hover_page ! 0)) * zoom_k hover_page
                   + zoom_y hover_page)) ^ 2) = 7"
    by (simp add: hover_facts sample_env_def sample_point_def)
  have thr: "max (7 / zoom_k hover_page) (curPointWidth hover_page * 2) = 7"
    by (simp add: hover_facts)
  have local: "mouseoverDecision sample_env 0 0 hover_page = Highlight 0
     \<and> mouseoverPoint sample_env 0 0 hover_page
         = highlightPoint sample_env (Some (Live 0)) False hover_page"
    using k q dist thr
      hover_gate_inclusive_with_local_quadtree [OF k, of _ sample_env 0 0 0]
    by simp
  have k2: "0 < zoom_k empty_tree_page"
    and e: "pointQuadtree empty_tree_page \<noteq> None \<and> promptPoints empty_tree_page \<noteq> []
            \<and> closestPoint sample_env 0 0 empty_tree_page = None"
    by (simp_all add: empty_tree_page_def ui_ready_def ui_init_def closestPoint_def sample_env_def)
  have none: "mouseoverPoint sample_env 0 0 empty_tree_page = empty_tree_page"
    using e hover_gate_inclusive_with_local_quadtree [OF k2, of _ sample_env 0 0] by blast
  have k3: "0 < zoom_k unindexed_page"
    by (simp add: unindexed_facts)
  have ask: "mouseoverDecision sample_env 0 0 unindexed_page = AskTreeWorker"
    using unindexed_facts(1) hover_gate_inclusive_with_local_quadtree [OF k3, of _ sample_env 0 0]
    by blast
  have "workerDistance (applyX unindexed_page (xScale sample_env (pt_x (sample_point 0 8 8))))
          (applyY unindexed_page (yScale sample_env (pt_y (sample_point 0 8 8)))) 0 0 = 8"
    by (simp add: workerDistance_def applyX_def applyY_def unindexed_facts sample_env_def
        sample_point_def)
  then have le: "max \<bar>xScale sample_env (pt_x (sample_point 0 8 8)) * zoom_k unindexed_page
                       + zoom_x unindexed_page - 0\<bar>
                     \<bar>yScale sample_env (pt_y (sample_point 0 8 8)) * zoom_k unindexed_page
                       + zoom_y unindexed_page - 0\<bar>
                  \<le> max HOVER_RADIUS
                        (max (10 / zoom_k unindexed_page)
                             (scatterDotRadius sample_env * exp (ln (zoom_k unindexed_page) * 0.55)
                                / zoom_k unindexed_page)
                         * zoom_k unindexed_page)"
    using unindexed_thresholds(2)
    by (simp add: workerDistance_def applyX_def applyY_def curHoverRadius_def Let_def)
  have reply: "treeWorkerMessageHandler sample_env (FinishQuadtreeSearch (sample_point 0 8 8))
                 unindexed_page
       = highlightPoint sample_env (Some (Clone (sample_point 0 8 8))) False unindexed_page"
    using unindexed_facts(3) le
      hover_gate_inclusive_with_local_quadtree
        [OF k3, of _ sample_env _ _ _ 0 0 "sample_point 0 8 8"]
    by simp
  show ?thesis
    using k q dist thr local e none k3 unindexed_facts(1,3) ask reply by blast
qed

end
